theory Spec2Isabelle
  imports Complex_Main "HOL-Library.AList"
begin

unbundle bit_operations_syntax

section \<open>Values, errors and the library interface\<close>

text \<open>
  The module \<open>tipfy.sessions\<close> stores JSON values in signed cookies. A JSON value is what
  \<open>json_decode\<close> can return and what \<open>json_encode\<close> accepts; Python's \<open>None\<close> is
  \<open>JNull\<close>, so "returns None" and "returns a decoded null" are the same result, as they
  are in the program. Strings are byte strings (Python 2 \<open>str\<close>); JSON numbers are
  integers here, floating-point payloads are outside the model.
\<close>

datatype json =
    JNull
  | JBool bool
  | JInt int
  | JStr string
  | JArr "json list"
  | JObj "(string \<times> json) list"

text \<open>The exceptions that can leave the functions modelled here.\<close>

datatype error = KeyError | ValueError | TypeError | AttributeError | AssertionError

text \<open>Python truthiness of a decoded value (used by \<open>x or ()\<close> and \<open>not value\<close>).\<close>

fun truthy :: "json \<Rightarrow> bool" where
  "truthy JNull = False"
| "truthy (JBool b) = b"
| "truthy (JInt i) = (i \<noteq> 0)"
| "truthy (JStr s) = (s \<noteq> [])"
| "truthy (JArr xs) = (xs \<noteq> [])"
| "truthy (JObj kvs) = (kvs \<noteq> [])"

text \<open>
  The standard-library and \<open>tipfy.utils\<close> functions the module calls are not part of its
  source; the model takes them as a record of functions. A function that can raise
  returns \<open>None\<close> (or \<open>Inl\<close>) where it raises.
  \<^item> \<open>hmac_sha1_hex key msg\<close> is \<open>hmac.new(key, digestmod=hashlib.sha1)\<close>, one \<open>update(msg)\<close>,
    then \<open>hexdigest()\<close>;
  \<^item> \<open>b64encode\<close>, \<open>b64decode\<close> are \<open>base64.b64encode\<close> and \<open>base64.b64decode\<close>;
  \<^item> \<open>json_encode v\<close> is \<open>json_encode(v, separators=(',', ':'))\<close>, \<open>json_decode\<close> its inverse;
  \<^item> \<open>dict_items v\<close> is what \<open>dict.update(d, v)\<close> stores into an empty dictionary for a
    truthy decoded value \<open>v\<close> (the items of a decoded object, whose keys are strings), or
    the exception it raises for a value it cannot read as a mapping.
\<close>

record pylib =
  hmac_sha1_hex :: "string \<Rightarrow> string \<Rightarrow> string"
  b64encode :: "string \<Rightarrow> string"
  b64decode :: "string \<Rightarrow> string option"
  json_encode :: "json \<Rightarrow> string"
  json_decode :: "string \<Rightarrow> json option"
  dict_items :: "json \<Rightarrow> error + (string \<times> json) list"

section \<open>Python string and integer primitives\<close>

text \<open>\<open>s.split(c)\<close> for a one-character separator: never empty, one more field than separators.\<close>

fun split_char :: "char \<Rightarrow> string \<Rightarrow> string list" where
  "split_char c [] = [[]]"
| "split_char c (x # xs) =
     (if x = c then [] # split_char c xs
      else (case split_char c xs of
              [] \<Rightarrow> [[x]]
            | p # ps \<Rightarrow> (x # p) # ps))"

text \<open>\<open>sep.join(parts)\<close>.\<close>

fun join :: "string \<Rightarrow> string list \<Rightarrow> string" where
  "join sep [] = []"
| "join sep [p] = p"
| "join sep (p # q # ps) = p @ sep @ join sep (q # ps)"

text \<open>\<open>ord\<close> of a byte.\<close>

definition ord :: "char \<Rightarrow> int" where
  "ord c = of_char c"

text \<open>\<open>str(n)\<close> of an integer: decimal digits, a leading minus sign for a negative one.\<close>

definition digit_char :: "int \<Rightarrow> char" where
  "digit_char d = char_of (48 + d)"

function str_digits :: "int \<Rightarrow> string" where
  "str_digits n =
     (if n < 10 then [digit_char n] else str_digits (n div 10) @ [digit_char (n mod 10)])"
  by pat_completeness auto
termination
  by (relation "measure nat") auto

declare str_digits.simps [simp del]

definition py_str :: "int \<Rightarrow> string" where
  "py_str i = (if i < 0 then CHR ''-'' # str_digits (- i) else str_digits i)"

text \<open>
  \<open>int(s)\<close> of a string, base ten: surrounding white space is dropped, one sign is allowed,
  at least one digit must follow and nothing but digits; anything else raises ValueError
  (\<open>None\<close> here).
\<close>

definition is_space :: "char \<Rightarrow> bool" where
  "is_space c = (c \<in> set [CHR '' '', CHR 0x09, CHR 0x0A, CHR 0x0B, CHR 0x0C, CHR 0x0D])"

definition is_digit :: "char \<Rightarrow> bool" where
  "is_digit c = (48 \<le> (of_char c :: int) \<and> (of_char c :: int) \<le> 57)"

definition strip :: "string \<Rightarrow> string" where
  "strip s = rev (dropWhile is_space (rev (dropWhile is_space s)))"

definition digit_val :: "char \<Rightarrow> int" where
  "digit_val c = of_char c - 48"

definition int_of_digits :: "string \<Rightarrow> int" where
  "int_of_digits ds = foldl (\<lambda>acc c. acc * 10 + digit_val c) 0 ds"

definition parse_digits :: "string \<Rightarrow> int option" where
  "parse_digits ds =
     (if ds \<noteq> [] \<and> list_all is_digit ds then Some (int_of_digits ds) else None)"

definition py_int :: "string \<Rightarrow> int option" where
  "py_int s =
     (case strip s of
        [] \<Rightarrow> None
      | c # cs \<Rightarrow>
          if c = CHR ''-'' then map_option uminus (parse_digits cs)
          else if c = CHR ''+'' then parse_digits cs
          else parse_digits (c # cs))"

text \<open>
  \<open>time.time()\<close> is a parameter \<open>now\<close> of the functions that read the clock. It and
  \<open>max_age\<close> are finite floats, that is IEEE 754 doubles, each given by the real number
  it denotes (an integer \<open>max_age\<close> by the float Python converts it to before it subtracts).
  \<open>int(x)\<close> of a float truncates towards zero.
\<close>

definition int_of_float :: "real \<Rightarrow> int" where
  "int_of_float x = (if 0 \<le> x then \<lfloor>x\<rfloor> else \<lceil>x\<rceil>)"

text \<open>
  Float subtraction \<open>x - y\<close> is the exact difference rounded to the nearest double, ties
  to the even significand: 53 significant bits, the unit in the last place never below
  \<open>2\<^sup>-\<^sup>1\<^sup>0\<^sup>7\<^sup>4\<close>, and an infinity when the rounded magnitude reaches \<open>2\<^sup>1\<^sup>0\<^sup>2\<^sup>4\<close>.
  \<open>exponent_of k x\<close> is the binary exponent of a positive \<open>x\<close> (the \<open>e\<close> with
  \<open>2\<^sup>e \<le> x < 2\<^sup>e\<^sup>+\<^sup>1\<close>), found in at most \<open>k\<close> halvings or doublings; the 2200 steps
  used below reach every exponent that decides a rounding.
\<close>

datatype pyfloat = Finite real | PosInf | NegInf

fun exponent_of :: "nat \<Rightarrow> real \<Rightarrow> int" where
  "exponent_of 0 x = 0"
| "exponent_of (Suc k) x =
     (if 2 \<le> x then exponent_of k (x / 2) + 1
      else if x < 1 then exponent_of k (x * 2) - 1
      else 0)"

definition pow2 :: "int \<Rightarrow> real" where
  "pow2 e = (if 0 \<le> e then 2 ^ nat e else 1 / 2 ^ nat (- e))"

definition round_half_even :: "real \<Rightarrow> int" where
  "round_half_even x =
     (let f = \<lfloor>x\<rfloor>; d = x - of_int f
      in if d < 1 / 2 then f else if 1 / 2 < d then f + 1 else if even f then f else f + 1)"

definition round_double :: "real \<Rightarrow> pyfloat" where
  "round_double x =
     (if x = 0 then Finite 0
      else
        let e = max (exponent_of 2200 \<bar>x\<bar>) (- 1022);
            u = pow2 (e - 52);
            r = of_int (round_half_even (x / u)) * u
        in if 1024 \<le> exponent_of 2200 \<bar>r\<bar> then (if 0 < r then PosInf else NegInf)
           else Finite r)"

definition float_sub :: "real \<Rightarrow> real \<Rightarrow> pyfloat" where
  "float_sub x y = round_double (x - y)"

text \<open>\<open>i < x\<close> for a Python integer and a float: Python compares the two exactly.\<close>

fun int_lt_float :: "int \<Rightarrow> pyfloat \<Rightarrow> bool" where
  "int_lt_float i (Finite r) = (of_int i < r)"
| "int_lt_float i PosInf = True"
| "int_lt_float i NegInf = False"

section \<open>SecureCookieStore\<close>

text \<open>\<open>_encode\<close> and \<open>_decode\<close>; \<open>_decode\<close> raises where either library call does.\<close>

definition encode :: "pylib \<Rightarrow> json \<Rightarrow> string" where
  "encode L v = b64encode L (json_encode L v)"

definition decode :: "pylib \<Rightarrow> string \<Rightarrow> json option" where
  "decode L s = (case b64decode L s of None \<Rightarrow> None | Some raw \<Rightarrow> json_decode L raw)"

text \<open>\<open>_get_signature(*parts)\<close>: the HMAC of the parts joined by a bar, keyed by the secret.\<close>

definition get_signature :: "pylib \<Rightarrow> string \<Rightarrow> string list \<Rightarrow> string" where
  "get_signature L secret_key parts = hmac_sha1_hex L secret_key (join ''|'' parts)"

text \<open>
  \<open>_check_signature(a, b)\<close>: unequal lengths fail at once; otherwise the loop ORs the XOR
  of every pair of character codes into \<open>result\<close> and the strings match when it stays 0.
\<close>

fun check_loop :: "int \<Rightarrow> (char \<times> char) list \<Rightarrow> int" where
  "check_loop result [] = result"
| "check_loop result ((x, y) # ps) = check_loop (result OR (ord x XOR ord y)) ps"

definition check_signature :: "string \<Rightarrow> string \<Rightarrow> bool" where
  "check_signature a b =
     (if length a \<noteq> length b then False else check_loop 0 (zip a b) = 0)"

text \<open>
  \<open>get_signed_value(name, value)\<close>: the clock is read once, the value encoded, the three
  fields signed and joined.
\<close>

definition get_signed_value :: "pylib \<Rightarrow> string \<Rightarrow> string \<Rightarrow> json \<Rightarrow> real \<Rightarrow> string" where
  "get_signed_value L secret_key name v now =
     (let timestamp = py_str (int_of_float now);
          payload = encode L v;
          signature = get_signature L secret_key [name, payload, timestamp]
      in join ''|'' [payload, timestamp, signature])"

text \<open>
  \<open>get_cookie(request, name, max_age)\<close>. \<open>cookies\<close> is \<open>request.cookies\<close>. The result is
  the decoded value, \<open>JNull\<close> for Python's None, or the exception that escapes: the
  \<open>try\<close> of the source covers \<open>_decode\<close> only, so a ValueError of \<open>int(parts[1])\<close> is not
  caught. The expiry test \<open>int(parts[1]) < time.time() - max_age\<close> subtracts two floats and
  compares an integer with the result. The logging calls are left out.
\<close>

definition get_cookie ::
  "pylib \<Rightarrow> string \<Rightarrow> (string \<times> string) list \<Rightarrow> string \<Rightarrow> real option \<Rightarrow> real \<Rightarrow> error + json" where
  "get_cookie L secret_key cookies name max_age now =
     (case map_of cookies name of
        None \<Rightarrow> Inr JNull
      | Some val \<Rightarrow>
          if val = [] then Inr JNull
          else
            let parts = split_char CHR ''|'' val in
            if length parts \<noteq> 3 then Inr JNull
            else
              let signature = get_signature L secret_key [name, parts ! 0, parts ! 1] in
              if \<not> check_signature (parts ! 2) signature then Inr JNull
              else
                (case max_age of
                   None \<Rightarrow>
                     (case decode L (parts ! 0) of None \<Rightarrow> Inr JNull | Some v \<Rightarrow> Inr v)
                 | Some age \<Rightarrow>
                     (case py_int (parts ! 1) of
                        None \<Rightarrow> Inl ValueError
                      | Some ts \<Rightarrow>
                          if int_lt_float ts (float_sub now age) then Inr JNull
                          else (case decode L (parts ! 0) of
                                  None \<Rightarrow> Inr JNull
                                | Some v \<Rightarrow> Inr v))))"

section \<open>Sessions\<close>

text \<open>
  \<open>BaseSession\<close> extends werkzeug's \<open>ModificationTrackingDict\<close>: a dictionary with a flag
  \<open>modified\<close> that every mutating method (\<open>__setitem__\<close>, \<open>__delitem__\<close>, \<open>pop\<close>,
  \<open>setdefault\<close>, \<open>update\<close>, ...) sets, whether or not the call changes the contents, and
  that starts False. The dictionary is an association list with \<open>map_of\<close> as lookup.
\<close>

record session =
  items :: "(string \<times> json) list"
  modified :: bool

definition new_session :: "(string \<times> json) list \<Rightarrow> session" where
  "new_session kvs = \<lparr>items = kvs, modified = False\<rparr>"

text \<open>\<open>self.pop(key, default)\<close> and \<open>self.setdefault(key, default)\<close> of the tracking dictionary.\<close>

definition pop :: "session \<Rightarrow> string \<Rightarrow> json \<Rightarrow> json \<times> session" where
  "pop s key dflt =
     (case map_of (items s) key of
        None \<Rightarrow> (dflt, s\<lparr>modified := True\<rparr>)
      | Some v \<Rightarrow> (v, s\<lparr>items := AList.delete key (items s), modified := True\<rparr>))"

definition setdefault :: "session \<Rightarrow> string \<Rightarrow> json \<Rightarrow> json \<times> session" where
  "setdefault s key dflt =
     (case map_of (items s) key of
        None \<Rightarrow> (dflt, s\<lparr>items := AList.update key dflt (items s), modified := True\<rparr>)
      | Some v \<Rightarrow> (v, s\<lparr>modified := True\<rparr>))"

text \<open>\<open>get_flashes(key)\<close>: no \<open>pop\<close> when the key is missing, so the flag is left alone.\<close>

definition get_flashes :: "session \<Rightarrow> string \<Rightarrow> json \<times> session" where
  "get_flashes s key =
     (if map_of (items s) key = None then (JArr [], s)
      else pop s key (JArr []))"

text \<open>
  \<open>add_flash(value, key)\<close>: \<open>setdefault(key, []).append(value)\<close>. The list stored under
  the key is extended in place; a stored value that is not a list has no \<open>append\<close>.
\<close>

definition add_flash :: "session \<Rightarrow> json \<Rightarrow> string \<Rightarrow> error + session" where
  "add_flash s v key =
     (case setdefault s key (JArr []) of
        (JArr xs, s1) \<Rightarrow> Inr (s1\<lparr>items := AList.update key (JArr (xs @ [v])) (items s1)\<rparr>)
      | (_, s1) \<Rightarrow> Inl AttributeError)"

section \<open>SessionStore\<close>

text \<open>
  Keyword arguments and the configured \<open>cookie_args\<close> are association lists of option
  names and values. The response records the cookie calls it receives, in order.
\<close>

type_synonym kwargs = "(string \<times> json) list"

datatype cookie_write =
    SetCookie string string kwargs
  | DeleteCookie string json json

type_synonym response = "cookie_write list"

text \<open>
  The backends of the source: \<open>default_backends\<close> holds \<open>securecookie\<close> only; the
  App Engine backends live in a module outside the source.
\<close>

datatype backend = SecureCookieSession

record config =
  secret_key :: string
  default_backend :: string
  cookie_name :: string
  session_max_age :: "real option"
  cookie_args :: kwargs

text \<open>
  Session objects are shared by reference: \<open>get_session\<close> hands out the object it
  tracks. The store state therefore holds a heap of session objects, addressed by their
  index, next to the two tracking dictionaries \<open>_sessions\<close> and \<open>_cookies\<close>.
\<close>

type_synonym addr = nat

record store =
  config :: config
  request_cookies :: "(string \<times> string) list"
  backends :: "(string \<times> backend) list"
  sessions :: "(string \<times> (string \<times> (addr \<times> kwargs)) list) list"
  cookies :: "(string \<times> (string option \<times> kwargs)) list"
  heap :: "session list"

text \<open>
  \<open>SessionStore.__init__(app, request, backends=None)\<close>: nothing is tracked yet, and the
  backends are \<open>default_backends\<close>.
\<close>

definition default_backends :: "(string \<times> backend) list" where
  "default_backends = [(''securecookie'', SecureCookieSession)]"

definition new_store :: "config \<Rightarrow> (string \<times> string) list \<Rightarrow> store" where
  "new_store cfg jar =
     \<lparr>config = cfg, request_cookies = jar, backends = default_backends,
      sessions = [], cookies = [], heap = []\<rparr>"

text \<open>\<open>default_config\<close> of the module, with a secret key set.\<close>

definition default_config :: "string \<Rightarrow> config" where
  "default_config secret =
     \<lparr>secret_key = secret, default_backend = ''securecookie'', cookie_name = ''session'',
      session_max_age = None,
      cookie_args = [(''max_age'', JNull), (''domain'', JNull), (''path'', JStr ''/''),
                     (''secure'', JNull), (''httponly'', JBool False)]\<rparr>"

definition deref :: "store \<Rightarrow> addr \<Rightarrow> session option" where
  "deref st a = (if a < length (heap st) then Some (heap st ! a) else None)"

definition alloc :: "store \<Rightarrow> session \<Rightarrow> addr \<times> store" where
  "alloc st s = (length (heap st), st\<lparr>heap := heap st @ [s]\<rparr>)"

text \<open>\<open>x or default\<close> for an optional string argument: None and the empty string are falsy.\<close>

text \<open>Every tracked reference denotes an object of the heap, as every Python reference does.\<close>

definition tracked_valid :: "store \<Rightarrow> bool" where
  "tracked_valid st =
     list_all (\<lambda>(b, d). list_all (\<lambda>(k, (a, kw)). a < length (heap st)) d) (sessions st)"

text \<open>Whether \<open>_sessions[backend]\<close> holds the key.\<close>

definition is_tracked :: "store \<Rightarrow> string \<Rightarrow> string \<Rightarrow> bool" where
  "is_tracked st backend key =
     (case map_of (sessions st) backend of
        None \<Rightarrow> False
      | Some d \<Rightarrow> map_of d key \<noteq> None)"

definition or_default :: "string option \<Rightarrow> string \<Rightarrow> string" where
  "or_default x d = (case x of None \<Rightarrow> d | Some s \<Rightarrow> if s = [] then d else s)"

text \<open>\<open>get_cookie_args(**kwargs)\<close>: a copy of the configured options, updated with the arguments.\<close>

definition get_cookie_args :: "store \<Rightarrow> kwargs \<Rightarrow> kwargs" where
  "get_cookie_args st kw = AList.merge (cookie_args (config st)) kw"

text \<open>
  \<open>SessionStore.get_secure_cookie(name, max_age)\<close>: the outer option of \<open>max_age\<close> is None
  for the sentinel \<open>DEFAULT_VALUE\<close>.
\<close>

definition get_secure_cookie ::
  "pylib \<Rightarrow> real \<Rightarrow> store \<Rightarrow> string \<Rightarrow> real option option \<Rightarrow> error + json" where
  "get_secure_cookie L now st name max_age =
     get_cookie L (secret_key (config st)) (request_cookies st) name
       (case max_age of None \<Rightarrow> session_max_age (config st) | Some m \<Rightarrow> m) now"

text \<open>
  \<open>SecureCookieSession.get_session(store, name)\<close>: \<open>cls(store.get_secure_cookie(name) or ())\<close>.
  The constructor yields a new, unmodified session object.
\<close>

definition securecookie_get_session ::
  "pylib \<Rightarrow> real \<Rightarrow> store \<Rightarrow> string \<Rightarrow> kwargs \<Rightarrow> error + (addr \<times> store)" where
  "securecookie_get_session L now st name kw =
     (case get_secure_cookie L now st name None of
        Inl e \<Rightarrow> Inl e
      | Inr v \<Rightarrow>
          (case (if truthy v then dict_items L v else Inr []) of
             Inl e \<Rightarrow> Inl e
           | Inr kvs \<Rightarrow> Inr (alloc st (new_session kvs))))"

text \<open>
  \<open>SessionStore.get_session(key, backend, **kwargs)\<close>. The call
  \<open>self._sessions.setdefault(backend, {})\<close> creates the backend's dictionary; a tracked
  key is returned as it is, an untracked one is loaded through the backend class and
  tracked with the merged options. An exception ends the
  call with the error alone; the store it leaves behind is not part of the result.
\<close>

definition sessions_setdefault ::
  "store \<Rightarrow> string \<Rightarrow> (string \<times> (addr \<times> kwargs)) list \<times> store" where
  "sessions_setdefault st backend =
     (case map_of (sessions st) backend of
        None \<Rightarrow> ([], st\<lparr>sessions := AList.update backend [] (sessions st)\<rparr>)
      | Some d \<Rightarrow> (d, st))"

definition get_session ::
  "pylib \<Rightarrow> real \<Rightarrow> store \<Rightarrow> string option \<Rightarrow> string option \<Rightarrow> kwargs \<Rightarrow> error + (addr \<times> store)" where
  "get_session L now st key backend kw =
     (let key = or_default key (cookie_name (config st));
          backend = or_default backend (default_backend (config st));
          (tracked, st1) = sessions_setdefault st backend
      in case map_of tracked key of
           Some (a, _) \<Rightarrow> Inr (a, st1)
         | None \<Rightarrow>
             (let kw = get_cookie_args st1 kw in
              case map_of (backends st1) backend of
                None \<Rightarrow> Inl KeyError
              | Some SecureCookieSession \<Rightarrow>
                  (case securecookie_get_session L now st1 key kw of
                     Inl e \<Rightarrow> Inl e
                   | Inr (a, st2) \<Rightarrow>
                       (case map_of (sessions st2) backend of
                          None \<Rightarrow> Inl KeyError
                        | Some d \<Rightarrow>
                            Inr (a, st2\<lparr>sessions :=
                                   AList.update backend (AList.update key (a, kw) d)
                                     (sessions st2)\<rparr>)))))"

text \<open>
  \<open>SessionStore.set_session(key, value, backend, **kwargs)\<close>: the source indexes
  \<open>self._sessions[backend]\<close> without creating it, and takes the key as given.
\<close>

definition set_session ::
  "store \<Rightarrow> string \<Rightarrow> addr \<Rightarrow> string option \<Rightarrow> kwargs \<Rightarrow> error + store" where
  "set_session st key a backend kw =
     (let backend = or_default backend (default_backend (config st));
          kw = get_cookie_args st kw
      in case map_of (sessions st) backend of
           None \<Rightarrow> Inl KeyError
         | Some d \<Rightarrow>
             Inr (st\<lparr>sessions := AList.update backend (AList.update key (a, kw) d) (sessions st)\<rparr>))"

text \<open>\<open>SecureCookieStore.set_cookie\<close> and \<open>SessionStore.set_secure_cookie\<close>.\<close>

definition store_set_cookie ::
  "pylib \<Rightarrow> real \<Rightarrow> string \<Rightarrow> response \<Rightarrow> string \<Rightarrow> json \<Rightarrow> kwargs \<Rightarrow> response" where
  "store_set_cookie L now secret resp name v kw =
     resp @ [SetCookie name (get_signed_value L secret name v now) kw]"

definition set_secure_cookie ::
  "pylib \<Rightarrow> real \<Rightarrow> store \<Rightarrow> response \<Rightarrow> string \<Rightarrow> json \<Rightarrow> kwargs \<Rightarrow> error + response" where
  "set_secure_cookie L now st resp name v kw =
     (case v of
        JObj kvs \<Rightarrow>
          Inr (store_set_cookie L now (secret_key (config st)) resp name v (get_cookie_args st kw))
      | _ \<Rightarrow> Inl AssertionError)"

text \<open>\<open>SecureCookieSession.save_session(response, store, name, **kwargs)\<close>.\<close>

definition save_session ::
  "pylib \<Rightarrow> real \<Rightarrow> session \<Rightarrow> response \<Rightarrow> store \<Rightarrow> string \<Rightarrow> kwargs \<Rightarrow> error + response" where
  "save_session L now s resp st name kw =
     (if \<not> modified s then Inr resp
      else set_secure_cookie L now st resp name (JObj (items s)) kw)"

text \<open>\<open>SessionStore.set_cookie\<close>, \<open>unset_cookie\<close> and \<open>delete_cookie\<close>.\<close>

definition set_cookie :: "store \<Rightarrow> string \<Rightarrow> string \<Rightarrow> kwargs \<Rightarrow> store" where
  "set_cookie st key v kw =
     st\<lparr>cookies := AList.update key (Some v, get_cookie_args st kw) (cookies st)\<rparr>"

definition unset_cookie :: "store \<Rightarrow> string \<Rightarrow> store" where
  "unset_cookie st key = st\<lparr>cookies := AList.delete key (cookies st)\<rparr>"

definition delete_cookie :: "store \<Rightarrow> string \<Rightarrow> kwargs \<Rightarrow> store" where
  "delete_cookie st key kw =
     st\<lparr>cookies := AList.update key (None, get_cookie_args st kw) (cookies st)\<rparr>"

text \<open>
  \<open>SessionStore.save(response)\<close>: the tracked cookies first, then every tracked session
  of every backend. The dictionaries are walked in list order. A tracked address always
  denotes an object in Python; the model reports one outside the heap as KeyError.
\<close>

definition kw_get :: "kwargs \<Rightarrow> string \<Rightarrow> json \<Rightarrow> json" where
  "kw_get kw k d = (case map_of kw k of None \<Rightarrow> d | Some v \<Rightarrow> v)"

fun save_cookies :: "(string \<times> (string option \<times> kwargs)) list \<Rightarrow> response \<Rightarrow> response" where
  "save_cookies [] resp = resp"
| "save_cookies ((key, (None, kw)) # cs) resp =
     save_cookies cs
       (resp @ [DeleteCookie key (kw_get kw ''path'' (JStr ''/'')) (kw_get kw ''domain'' JNull)])"
| "save_cookies ((key, (Some v, kw)) # cs) resp = save_cookies cs (resp @ [SetCookie key v kw])"

fun save_tracked ::
  "pylib \<Rightarrow> real \<Rightarrow> store \<Rightarrow> (string \<times> (addr \<times> kwargs)) list \<Rightarrow> response \<Rightarrow> error + response" where
  "save_tracked L now st [] resp = Inr resp"
| "save_tracked L now st ((key, (a, kw)) # ts) resp =
     (case deref st a of
        None \<Rightarrow> Inl KeyError
      | Some s \<Rightarrow>
          (case save_session L now s resp st key kw of
             Inl e \<Rightarrow> Inl e
           | Inr resp1 \<Rightarrow> save_tracked L now st ts resp1))"

fun save_backends ::
  "pylib \<Rightarrow> real \<Rightarrow> store \<Rightarrow> (string \<times> (string \<times> (addr \<times> kwargs)) list) list \<Rightarrow> response
     \<Rightarrow> error + response" where
  "save_backends L now st [] resp = Inr resp"
| "save_backends L now st ((b, d) # bs) resp =
     (case save_tracked L now st d resp of
        Inl e \<Rightarrow> Inl e
      | Inr resp1 \<Rightarrow> save_backends L now st bs resp1)"

definition save :: "pylib \<Rightarrow> real \<Rightarrow> store \<Rightarrow> response \<Rightarrow> error + response" where
  "save L now st resp = save_backends L now st (sessions st) (save_cookies (cookies st) resp)"

text \<open>
  \<open>SecureCookieMixin.get_secure_cookie(key, **kwargs)\<close> of a request handler, whose
  \<open>session_store\<close> is the store of the request.
\<close>

definition mixin_get_secure_cookie ::
  "pylib \<Rightarrow> real \<Rightarrow> store \<Rightarrow> string option \<Rightarrow> kwargs \<Rightarrow> error + (addr \<times> store)" where
  "mixin_get_secure_cookie L now st key kw = get_session L now st key (Some ''securecookie'') kw"

section \<open>A reference instance of the library\<close>

text \<open>
  The worked examples below run the model on concrete cookies. They use this instance of
  the library record: base64 with the standard alphabet and padding, and compact JSON for
  the values of type \<open>json\<close>.
\<close>

definition b64_alphabet :: string where
  "b64_alphabet = ''ABCDEFGHIJKLMNOPQRSTUVWXYZabcdefghijklmnopqrstuvwxyz0123456789+/''"

definition b64_char :: "int \<Rightarrow> char" where
  "b64_char n = b64_alphabet ! nat (n mod 64)"

fun b64_encode :: "string \<Rightarrow> string" where
  "b64_encode [] = []"
| "b64_encode [a] =
     (let x = (of_char a :: int)
      in [b64_char (x div 4), b64_char (x mod 4 * 16), CHR ''='', CHR ''=''])"
| "b64_encode [a, b] =
     (let x = (of_char a :: int); y = (of_char b :: int)
      in [b64_char (x div 4), b64_char (x mod 4 * 16 + y div 16), b64_char (y mod 16 * 4),
          CHR ''=''])"
| "b64_encode (a # b # c # rest) =
     (let x = (of_char a :: int); y = (of_char b :: int); z = (of_char c :: int)
      in [b64_char (x div 4), b64_char (x mod 4 * 16 + y div 16),
          b64_char (y mod 16 * 4 + z div 64), b64_char (z mod 64)] @ b64_encode rest)"

fun index_of :: "'a \<Rightarrow> 'a list \<Rightarrow> int option" where
  "index_of x [] = None"
| "index_of x (y # ys) = (if x = y then Some 0 else map_option (\<lambda>i. i + 1) (index_of x ys))"

definition b64_val :: "char \<Rightarrow> int option" where
  "b64_val c = index_of c b64_alphabet"

fun b64_decode :: "string \<Rightarrow> string option" where
  "b64_decode [] = Some []"
| "b64_decode (a # b # c # d # rest) =
     (case (b64_val a, b64_val b) of
        (Some w, Some x) \<Rightarrow>
          (if c = CHR ''='' \<and> d = CHR ''='' \<and> rest = [] then Some [char_of (w * 4 + x div 16)]
           else (case b64_val c of
                   None \<Rightarrow> None
                 | Some y \<Rightarrow>
                     (if d = CHR ''='' \<and> rest = []
                      then Some [char_of (w * 4 + x div 16), char_of (x mod 16 * 16 + y div 4)]
                      else (case (b64_val d, b64_decode rest) of
                              (Some z, Some ys) \<Rightarrow>
                                Some (char_of (w * 4 + x div 16) # char_of (x mod 16 * 16 + y div 4)
                                      # char_of (y mod 4 * 64 + z) # ys)
                            | _ \<Rightarrow> None))))
      | _ \<Rightarrow> None)"
| "b64_decode _ = None"

text \<open>Compact JSON: no white space, \<open>,\<close> and \<open>:\<close> as separators; quotes and backslashes are escaped.\<close>

fun json_escape :: "string \<Rightarrow> string" where
  "json_escape [] = []"
| "json_escape (c # cs) =
     (if c = CHR 0x22 \<or> c = CHR 0x5C then CHR 0x5C # c # json_escape cs else c # json_escape cs)"

definition json_quote :: "string \<Rightarrow> string" where
  "json_quote s = CHR 0x22 # json_escape s @ [CHR 0x22]"

fun json_dumps :: "json \<Rightarrow> string"
  and json_dumps_list :: "json list \<Rightarrow> string"
  and json_dumps_members :: "(string \<times> json) list \<Rightarrow> string" where
  "json_dumps JNull = ''null''"
| "json_dumps (JBool b) = (if b then ''true'' else ''false'')"
| "json_dumps (JInt i) = py_str i"
| "json_dumps (JStr s) = json_quote s"
| "json_dumps (JArr xs) = ''['' @ json_dumps_list xs @ '']''"
| "json_dumps (JObj kvs) = ''{'' @ json_dumps_members kvs @ ''}''"
| "json_dumps_list [] = []"
| "json_dumps_list [x] = json_dumps x"
| "json_dumps_list (x # y # ys) = json_dumps x @ '','' @ json_dumps_list (y # ys)"
| "json_dumps_members [] = []"
| "json_dumps_members [(k, v)] = json_quote k @ '':'' @ json_dumps v"
| "json_dumps_members ((k, v) # m # ms) =
     json_quote k @ '':'' @ json_dumps v @ '','' @ json_dumps_members (m # ms)"

text \<open>The decoder reads what the encoder writes; the fuel bounds the nesting and the number of items.\<close>

fun parse_string :: "string \<Rightarrow> (string \<times> string) option" where
  "parse_string [] = None"
| "parse_string (c # cs) =
     (if c = CHR 0x22 then Some ([], cs)
      else if c = CHR 0x5C then
        (case cs of
           [] \<Rightarrow> None
         | e # r \<Rightarrow>
             (if e = CHR 0x22 \<or> e = CHR 0x5C
              then map_option (\<lambda>(s, rest). (e # s, rest)) (parse_string r)
              else None))
      else map_option (\<lambda>(s, rest). (c # s, rest)) (parse_string cs))"

definition parse_number :: "string \<Rightarrow> (json \<times> string) option" where
  "parse_number s =
     (let body = (if s \<noteq> [] \<and> hd s = CHR ''-'' then tl s else s);
          ds = takeWhile is_digit body;
          n = length s - length body + length ds
      in if ds = [] then None
         else map_option (\<lambda>i. (JInt i, drop n s)) (py_int (take n s)))"

definition expect :: "string \<Rightarrow> string \<Rightarrow> string option" where
  "expect w s = (if take (length w) s = w then Some (drop (length w) s) else None)"

fun parse_value :: "nat \<Rightarrow> string \<Rightarrow> (json \<times> string) option"
  and parse_items :: "nat \<Rightarrow> string \<Rightarrow> (json list \<times> string) option"
  and parse_members :: "nat \<Rightarrow> string \<Rightarrow> ((string \<times> json) list \<times> string) option" where
  "parse_value 0 s = None"
| "parse_value (Suc k) s =
     (case s of
        [] \<Rightarrow> None
      | c # cs \<Rightarrow>
          if c = CHR ''n'' then map_option (Pair JNull) (expect ''ull'' cs)
          else if c = CHR ''t'' then map_option (Pair (JBool True)) (expect ''rue'' cs)
          else if c = CHR ''f'' then map_option (Pair (JBool False)) (expect ''alse'' cs)
          else if c = CHR 0x22 then map_option (\<lambda>(str, r). (JStr str, r)) (parse_string cs)
          else if c = CHR ''['' then
            (case expect '']'' cs of
               Some r \<Rightarrow> Some (JArr [], r)
             | None \<Rightarrow> map_option (\<lambda>(xs, r). (JArr xs, r)) (parse_items k cs))
          else if c = CHR ''{'' then
            (case expect ''}'' cs of
               Some r \<Rightarrow> Some (JObj [], r)
             | None \<Rightarrow> map_option (\<lambda>(ms, r). (JObj ms, r)) (parse_members k cs))
          else parse_number s)"
| "parse_items 0 s = None"
| "parse_items (Suc k) s =
     (case parse_value k s of
        None \<Rightarrow> None
      | Some (v, r) \<Rightarrow>
          (case r of
             [] \<Rightarrow> None
           | c # r' \<Rightarrow>
               if c = CHR '']'' then Some ([v], r')
               else if c = CHR '','' then map_option (\<lambda>(xs, r''). (v # xs, r'')) (parse_items k r')
               else None))"
| "parse_members 0 s = None"
| "parse_members (Suc k) s =
     (case expect [CHR 0x22] s of
        None \<Rightarrow> None
      | Some s1 \<Rightarrow>
          (case parse_string s1 of
             None \<Rightarrow> None
           | Some (key, s2) \<Rightarrow>
               (case expect '':'' s2 of
                  None \<Rightarrow> None
                | Some s3 \<Rightarrow>
                    (case parse_value k s3 of
                       None \<Rightarrow> None
                     | Some (v, r) \<Rightarrow>
                         (case r of
                            [] \<Rightarrow> None
                          | c # r' \<Rightarrow>
                              if c = CHR ''}'' then Some ([(key, v)], r')
                              else if c = CHR '','' then
                                map_option (\<lambda>(ms, r''). ((key, v) # ms, r'')) (parse_members k r')
                              else None)))))"

definition json_loads :: "string \<Rightarrow> json option" where
  "json_loads s =
     (case parse_value (Suc (length s)) s of
        Some (v, []) \<Rightarrow> Some v
      | _ \<Rightarrow> None)"

text \<open>
  HMAC-SHA1 at the messages the worked examples sign, as Python's \<open>hmac\<close> module computes
  it; forty zeros elsewhere.
\<close>

definition hmac_sha1_vectors :: "((string \<times> string) \<times> string) list" where
  "hmac_sha1_vectors =
     [((''s3cr3t'', ''session|eyJ1aWQiOjQyfQ==|1288000000''),
         ''fd353013e1e6b1060186e0aa29d00e53e622ded5''),
      ((''s3cr3t'', ''session|eyJ1aWQiOjF9|1288000000''),
         ''9de105af2d5bedb98d97edf9542d4c9389bd60e4''),
      ((''s3cr3t'', ''session|eyJ1aWQiOjQyfQ==|abc''),
         ''365fc04393e29efd869300719aa3f37c0df09bcd''),
      ((''0th3r'', ''session|eyJ1aWQiOjQyfQ==|1288000000''),
         ''44faa0e5b760d57a3ea099fe8b5b8bd98ea41eb4'')]"

definition hmac_lookup :: "string \<Rightarrow> string \<Rightarrow> string" where
  "hmac_lookup key msg =
     (case map_of hmac_sha1_vectors (key, msg) of
        None \<Rightarrow> replicate 40 CHR ''0''
      | Some d \<Rightarrow> d)"

text \<open>\<open>dict.update\<close> from a decoded object; the instance refuses every other value.\<close>

definition dict_update_items :: "json \<Rightarrow> error + (string \<times> json) list" where
  "dict_update_items v = (case v of JObj kvs \<Rightarrow> Inr kvs | _ \<Rightarrow> Inl TypeError)"

definition reflib :: pylib where
  "reflib = \<lparr>hmac_sha1_hex = hmac_lookup, b64encode = b64_encode, b64decode = b64_decode,
             json_encode = json_dumps, json_decode = json_loads, dict_items = dict_update_items\<rparr>"

text \<open>
  The scenario of the examples: the secret \<open>s3cr3t\<close>, the cookie \<open>session\<close>, the value
  \<open>{"uid": 42}\<close> signed at 1288000000, and a store created for a request that carries
  that cookie.
\<close>

definition scenario_token :: string where
  "scenario_token = ''eyJ1aWQiOjQyfQ==|1288000000|fd353013e1e6b1060186e0aa29d00e53e622ded5''"

definition scenario_store :: store where
  "scenario_store = new_store (default_config ''s3cr3t'') [(''session'', scenario_token)]"

text \<open>The same store after \<open>get_session()\<close> has loaded the cookie.\<close>

definition scenario_loaded :: store where
  "scenario_loaded =
     scenario_store
       \<lparr>sessions := [(''securecookie'',
                       [(''session'', (0, cookie_args (default_config ''s3cr3t'')))])],
        heap := [new_session [(''uid'', JInt 42)]]\<rparr>"

text \<open>The loaded store after \<open>get_session('foo')\<close>, and after \<open>set_session('bar', session)\<close>.\<close>

definition scenario_foo :: store where
  "scenario_foo =
     scenario_loaded
       \<lparr>sessions := [(''securecookie'',
                       [(''session'', (0, cookie_args (default_config ''s3cr3t''))),
                        (''foo'', (1, cookie_args (default_config ''s3cr3t'')))])],
        heap := [new_session [(''uid'', JInt 42)], new_session []]\<rparr>"

definition scenario_bar :: store where
  "scenario_bar =
     scenario_loaded
       \<lparr>sessions := [(''securecookie'',
                       [(''session'', (0, cookie_args (default_config ''s3cr3t''))),
                        (''bar'', (0, cookie_args (default_config ''s3cr3t'')))])]\<rparr>"

section \<open>Facts about the primitives\<close>

lemma split_char_ne: "split_char c s \<noteq> []"
  by (induction s) (auto split: list.splits)

lemma split_char_no_sep: "c \<notin> set s \<Longrightarrow> split_char c s = [s]"
  by (induction s) auto

lemma split_char_append:
  "c \<notin> set a \<Longrightarrow> split_char c (a @ c # r) = a # split_char c r"
  by (induction a) auto

lemma length_split_char: "length (split_char c s) = Suc (count_list s c)"
  by (induction s) (auto split: list.splits simp: split_char_ne)


lemma xor_int_eq_0_iff: "(a::int) XOR b = 0 \<longleftrightarrow> a = b"
proof
  assume h: "a XOR b = 0"
  have "a = a XOR (b XOR b)" by simp
  also have "\<dots> = (a XOR b) XOR b" by (simp only: xor.assoc)
  also have "\<dots> = b" using h by simp
  finally show "a = b" .
next
  assume "a = b" then show "a XOR b = 0" by simp
qed

lemma check_loop_zero: "check_loop r ps = 0 \<longleftrightarrow> r = 0 \<and> (\<forall>p \<in> set ps. fst p = snd p)"
  by (induction r ps rule: check_loop.induct)
     (auto simp: ord_def or_eq_0_iff xor_int_eq_0_iff)

lemma zip_all_eq: "length a = length b \<Longrightarrow> (\<forall>p \<in> set (zip a b). fst p = snd p) \<longleftrightarrow> a = b"
  by (induction a b rule: list_induct2) auto

lemma check_signature_eq: "check_signature a b \<longleftrightarrow> a = b"
  by (auto simp: check_signature_def check_loop_zero zip_all_eq)


lemma of_char_digit_char: "0 \<le> d \<Longrightarrow> d < 10 \<Longrightarrow> (of_char (digit_char d) :: int) = 48 + d"
  by (simp add: digit_char_def)

lemma digit_char_props:
  assumes "0 \<le> d" "d < 10"
  shows "is_digit (digit_char d)" "digit_val (digit_char d) = d"
  using of_char_digit_char [OF assms] assms
  by (auto simp: is_digit_def digit_val_def)

lemma str_digits_ne: "str_digits n \<noteq> []"
  by (subst str_digits.simps) simp

lemma str_digits_digits: "0 \<le> n \<Longrightarrow> list_all is_digit (str_digits n)"
proof (induction n rule: str_digits.induct)
  case (1 n)
  show ?case
  proof (cases "n < 10")
    case True
    with 1(2) show ?thesis
      by (subst str_digits.simps) (simp add: digit_char_props)
  next
    case False
    with 1 have "list_all is_digit (str_digits (n div 10))" by simp
    with False show ?thesis
      by (subst str_digits.simps) (simp add: digit_char_props)
  qed
qed

lemma str_digits_chars: "0 \<le> n \<Longrightarrow> c \<in> set (str_digits n) \<Longrightarrow> is_digit c"
  using str_digits_digits [of n] by (simp add: list_all_iff)

lemma is_digit_not:
  "is_digit c \<Longrightarrow> \<not> is_space c \<and> c \<noteq> CHR ''-'' \<and> c \<noteq> CHR ''+'' \<and> c \<noteq> CHR ''|''"
  by (auto simp: is_digit_def is_space_def)

lemma int_of_digits_snoc: "int_of_digits (ds @ [c]) = int_of_digits ds * 10 + digit_val c"
  by (simp add: int_of_digits_def)

lemma int_of_digits_str_digits: "0 \<le> n \<Longrightarrow> int_of_digits (str_digits n) = n"
proof (induction n rule: str_digits.induct)
  case (1 n)
  show ?case
  proof (cases "n < 10")
    case True
    with 1(2) show ?thesis
      by (subst str_digits.simps) (simp add: int_of_digits_def digit_char_props)
  next
    case False
    with 1 have "int_of_digits (str_digits (n div 10)) = n div 10" by simp
    with False show ?thesis
      by (subst str_digits.simps) (simp add: int_of_digits_snoc digit_char_props)
  qed
qed

lemma dropWhile_hd: "xs \<noteq> [] \<Longrightarrow> \<not> P (hd xs) \<Longrightarrow> dropWhile P xs = xs"
  by (cases xs) auto

lemma strip_id: "s \<noteq> [] \<Longrightarrow> \<not> is_space (hd s) \<Longrightarrow> \<not> is_space (last s) \<Longrightarrow> strip s = s"
  by (simp add: strip_def dropWhile_hd hd_rev)

lemma parse_digits_str_digits: "0 \<le> n \<Longrightarrow> parse_digits (str_digits n) = Some n"
  by (simp add: parse_digits_def str_digits_ne str_digits_digits int_of_digits_str_digits)

lemma py_int_digits:
  assumes "ds \<noteq> []" "list_all is_digit ds"
  shows "py_int ds = parse_digits ds" "py_int (CHR ''-'' # ds) = map_option uminus (parse_digits ds)"
proof -
  from assms have "is_digit (hd ds)" "is_digit (last ds)"
    by (auto simp: list_all_iff)
  then have h: "\<not> is_space (hd ds)" "\<not> is_space (last ds)" "hd ds \<noteq> CHR ''-''" "hd ds \<noteq> CHR ''+''"
    using is_digit_not by blast+
  have m: "\<not> is_space CHR ''-''" by (simp add: is_space_def)
  from h assms(1) have s1: "strip ds = ds" by (simp add: strip_id)
  from h assms(1) m have s2: "strip (CHR ''-'' # ds) = CHR ''-'' # ds"
    by (intro strip_id) auto
  from h assms(1) show "py_int ds = parse_digits ds"
    unfolding py_int_def s1 by (cases ds) simp_all
  show "py_int (CHR ''-'' # ds) = map_option uminus (parse_digits ds)"
    by (simp add: py_int_def s2)
qed

lemma py_int_py_str: "py_int (py_str i) = Some i"
  by (simp add: py_str_def py_int_digits str_digits_ne str_digits_digits parse_digits_str_digits)

lemma py_str_no_bar: "CHR ''|'' \<notin> set (py_str i)"
proof -
  have "CHR ''|'' \<notin> set (str_digits n)" if "0 \<le> n" for n
    using str_digits_chars [OF that] is_digit_not by blast
  then show ?thesis
    by (simp add: py_str_def)
qed





section \<open>The secure cookie codec\<close>

lemma split_token:
  assumes "CHR ''|'' \<notin> set p" "CHR ''|'' \<notin> set ts"
  shows "split_char CHR ''|'' (join ''|'' [p, ts, sg]) = p # ts # split_char CHR ''|'' sg"
  using assms by (simp add: split_char_append)

lemma split3_nonempty: "split_char c val = [p, ts, sg] \<Longrightarrow> val \<noteq> []"
  by auto

lemma get_cookie_parts:
  assumes "map_of jar n = Some val" "split_char CHR ''|'' val = [p, ts, sg]"
  shows "get_cookie L key jar n max_age now =
     (if sg \<noteq> get_signature L key [n, p, ts] then Inr JNull
      else (case max_age of
              None \<Rightarrow> (case decode L p of None \<Rightarrow> Inr JNull | Some v \<Rightarrow> Inr v)
            | Some age \<Rightarrow>
                (case py_int ts of
                   None \<Rightarrow> Inl ValueError
                 | Some t \<Rightarrow>
                     if int_lt_float t (float_sub now age) then Inr JNull
                     else (case decode L p of None \<Rightarrow> Inr JNull | Some v \<Rightarrow> Inr v))))"
  using assms split3_nonempty [OF assms(2)]
  by (cases max_age) (simp_all add: get_cookie_def check_signature_eq Let_def split: option.splits)

lemma get_cookie_field_count:
  assumes "map_of jar n = Some val" "length (split_char CHR ''|'' val) \<noteq> 3"
  shows "get_cookie L key jar n max_age now = Inr JNull"
  using assms by (simp add: get_cookie_def)

text \<open>
  Claim C5 (wire format). For every cookie name and value, \<open>get_signed_value\<close> is the
  base64 of the compact JSON of the value, a bar, the decimal string of the Unix time
  truncated to an integer, a bar, and the hex HMAC-SHA1 digest keyed by the secret over
  name, bar, base64 payload, bar, timestamp string, in that order. The timestamp field
  reads back as that integer.
\<close>

theorem get_signed_value_wire_format:
  "get_signed_value L key n v now =
     b64encode L (json_encode L v) @ ''|'' @ py_str (int_of_float now) @ ''|'' @
       hmac_sha1_hex L key
         (n @ ''|'' @ b64encode L (json_encode L v) @ ''|'' @ py_str (int_of_float now))
   \<and> py_int (py_str (int_of_float now)) = Some (int_of_float now)"
  by (simp add: get_signed_value_def get_signature_def encode_def py_int_py_str Let_def)

text \<open>
  Claim C2 (tamper detection). A cookie whose three fields are \<open>p\<close>, \<open>ts\<close>, \<open>sg\<close> with
  \<open>sg\<close> different from the HMAC recomputed over name, \<open>p\<close> and \<open>ts\<close> decodes to None,
  whatever \<open>max_age\<close> and the clock are. In particular: replacing one character of the
  signature of a valid token by any other character gives None (also when the new
  character is a bar, which makes it a four-field token); and a token that keeps
  signature and timestamp but carries another payload gives None, as long as the HMAC of
  the new payload differs from the kept signature.
\<close>

theorem tamper_detection:
  "(map_of jar n = Some val \<longrightarrow> split_char CHR ''|'' val = [p, ts, sg] \<longrightarrow>
      sg \<noteq> get_signature L key [n, p, ts] \<longrightarrow>
      get_cookie L key jar n max_age now = Inr JNull)
   \<and> (CHR ''|'' \<notin> set p \<longrightarrow> CHR ''|'' \<notin> set ts \<longrightarrow>
      i < length (get_signature L key [n, p, ts]) \<longrightarrow>
      c \<noteq> get_signature L key [n, p, ts] ! i \<longrightarrow>
      map_of jar n = Some (join ''|'' [p, ts, (get_signature L key [n, p, ts])[i := c]]) \<longrightarrow>
      get_cookie L key jar n max_age now = Inr JNull)
   \<and> (CHR ''|'' \<notin> set p' \<longrightarrow> CHR ''|'' \<notin> set ts \<longrightarrow>
      get_signature L key [n, p', ts] \<noteq> get_signature L key [n, p, ts] \<longrightarrow>
      map_of jar n = Some (join ''|'' [p', ts, get_signature L key [n, p, ts]]) \<longrightarrow>
      get_cookie L key jar n max_age now = Inr JNull)"
proof (intro conjI impI)
  assume "map_of jar n = Some val" "split_char CHR ''|'' val = [p, ts, sg]"
    "sg \<noteq> get_signature L key [n, p, ts]"
  then show "get_cookie L key jar n max_age now = Inr JNull"
    by (simp add: get_cookie_parts)
next
  let ?sig = "get_signature L key [n, p, ts]"
  assume h: "CHR ''|'' \<notin> set p" "CHR ''|'' \<notin> set ts" "i < length ?sig" "c \<noteq> ?sig ! i"
    "map_of jar n = Some (join ''|'' [p, ts, ?sig[i := c]])"
  have ne: "?sig[i := c] \<noteq> ?sig"
    using h(3,4) by (metis nth_list_update_eq)
  have sp: "split_char CHR ''|'' (join ''|'' [p, ts, ?sig[i := c]])
      = p # ts # split_char CHR ''|'' (?sig[i := c])"
    using h(1,2) by (rule split_token)
  show "get_cookie L key jar n max_age now = Inr JNull"
  proof (cases "CHR ''|'' \<in> set (?sig[i := c])")
    case False
    then have "split_char CHR ''|'' (join ''|'' [p, ts, ?sig[i := c]]) = [p, ts, ?sig[i := c]]"
      using sp by (simp add: split_char_no_sep)
    with h(5) ne show ?thesis
      by (simp add: get_cookie_parts)
  next
    case True
    then have "count_list (?sig[i := c]) CHR ''|'' \<noteq> 0"
      by (simp add: count_list_0_iff)
    then have "length (split_char CHR ''|'' (join ''|'' [p, ts, ?sig[i := c]])) \<noteq> 3"
      unfolding sp by (simp add: length_split_char)
    with h(5) show ?thesis
      by (rule get_cookie_field_count)
  qed
next
  let ?sig = "get_signature L key [n, p, ts]"
  assume h: "CHR ''|'' \<notin> set p'" "CHR ''|'' \<notin> set ts"
    "get_signature L key [n, p', ts] \<noteq> ?sig"
    "map_of jar n = Some (join ''|'' [p', ts, ?sig])"
  have sp: "split_char CHR ''|'' (join ''|'' [p', ts, ?sig]) = p' # ts # split_char CHR ''|'' ?sig"
    using h(1,2) by (rule split_token)
  show "get_cookie L key jar n max_age now = Inr JNull"
  proof (cases "CHR ''|'' \<in> set ?sig")
    case False
    then have "split_char CHR ''|'' (join ''|'' [p', ts, ?sig]) = [p', ts, ?sig]"
      using sp by (simp add: split_char_no_sep)
    with h(3,4) show ?thesis
      by (simp add: get_cookie_parts)
  next
    case True
    then have "count_list ?sig CHR ''|'' \<noteq> 0"
      by (simp add: count_list_0_iff)
    then have "length (split_char CHR ''|'' (join ''|'' [p', ts, ?sig])) \<noteq> 3"
      unfolding sp by (simp add: length_split_char)
    with h(4) show ?thesis
      by (rule get_cookie_field_count)
  qed
qed


text \<open>
  Claim C1 (round trip). If the library decodes what it encoded for \<open>v\<close> (JSON and
  base64), and neither the base64 text nor the hex digest contains a bar, then the token
  that \<open>get_signed_value\<close> makes for \<open>v\<close> under name \<open>n\<close>, sent back as the request
  cookie \<open>n\<close>, is decoded by \<open>get_cookie\<close> to \<open>v\<close> when no \<open>max_age\<close> is configured,
  at any later clock value.
\<close>

theorem round_trip:
  assumes "json_decode L (json_encode L v) = Some v"
    and "b64decode L (b64encode L (json_encode L v)) = Some (json_encode L v)"
    and "CHR ''|'' \<notin> set (b64encode L (json_encode L v))"
    and "CHR ''|'' \<notin> set (get_signature L key [n, encode L v, py_str (int_of_float now)])"
    and "map_of jar n = Some (get_signed_value L key n v now)"
  shows "get_cookie L key jar n None now' = Inr v"
proof -
  let ?p = "encode L v" and ?ts = "py_str (int_of_float now)"
  let ?sig = "get_signature L key [n, ?p, ?ts]"
  have tok: "get_signed_value L key n v now = join ''|'' [?p, ?ts, ?sig]"
    by (simp add: get_signed_value_def Let_def)
  have "split_char CHR ''|'' (join ''|'' [?p, ?ts, ?sig]) = ?p # ?ts # split_char CHR ''|'' ?sig"
    using assms(3) py_str_no_bar by (intro split_token) (simp_all add: encode_def)
  then have sp: "split_char CHR ''|'' (get_signed_value L key n v now) = [?p, ?ts, ?sig]"
    using assms(4) by (simp add: tok split_char_no_sep)
  have "decode L ?p = Some v"
    using assms(1,2) by (simp add: decode_def encode_def)
  then show ?thesis
    using get_cookie_parts [OF assms(5) sp, of L key None now'] by simp
qed

text \<open>
  The \<open>try\<close> of \<open>get_cookie\<close> does not cover \<open>int(parts[1])\<close>: a correctly signed cookie
  whose timestamp field is not an integer raises ValueError as soon as \<open>max_age\<close> is given.
\<close>

lemma get_cookie_uncaught:
  assumes "map_of jar n = Some val"
    and "split_char CHR ''|'' val = [p, tss, sg]"
    and "sg = get_signature L key [n, p, tss]"
    and "py_int tss = None"
  shows "get_cookie L key jar n (Some age) now = Inl ValueError"
  using assms by (simp add: get_cookie_parts)


text \<open>
  The format at the end-to-end scenario of the specification: secret \<open>s3cr3t\<close>, cookie
  \<open>session\<close>, value \<open>{"uid": 42}\<close>, clock at 1288000000.
\<close>

theorem get_signed_value_wire_format_witness:
  "get_signed_value reflib ''s3cr3t'' ''session'' (JObj [(''uid'', JInt 42)]) 1288000000 =
     ''eyJ1aWQiOjQyfQ==|1288000000|fd353013e1e6b1060186e0aa29d00e53e622ded5''"
proof -
  have "b64encode reflib (json_encode reflib (JObj [(''uid'', JInt 42)])) = ''eyJ1aWQiOjQyfQ==''"
    by code_simp
  moreover have "py_str (int_of_float 1288000000) = ''1288000000''"
    by code_simp
  moreover have "hmac_sha1_hex reflib ''s3cr3t'' ''session|eyJ1aWQiOjQyfQ==|1288000000'' =
      ''fd353013e1e6b1060186e0aa29d00e53e622ded5''"
    by code_simp
  ultimately show ?thesis
    using get_signed_value_wire_format
      [of reflib "''s3cr3t''" "''session''" "JObj [(''uid'', JInt 42)]" 1288000000]
    by simp
qed

text \<open>
  The round trip of the scenario: the token for \<open>{"uid": 42}\<close> and its decoding half a
  second later.
\<close>

theorem round_trip_witness:
  "get_signed_value reflib ''s3cr3t'' ''session'' (JObj [(''uid'', JInt 42)]) 1288000000 =
     ''eyJ1aWQiOjQyfQ==|1288000000|fd353013e1e6b1060186e0aa29d00e53e622ded5''
   \<and> get_cookie reflib ''s3cr3t''
        [(''session'', ''eyJ1aWQiOjQyfQ==|1288000000|fd353013e1e6b1060186e0aa29d00e53e622ded5'')]
        ''session'' None (1288000000 + 1 / 2) = Inr (JObj [(''uid'', JInt 42)])"
proof -
  let ?v = "JObj [(''uid'', JInt 42)]"
  let ?tok = "''eyJ1aWQiOjQyfQ==|1288000000|fd353013e1e6b1060186e0aa29d00e53e622ded5''"
  have tok: "get_signed_value reflib ''s3cr3t'' ''session'' ?v 1288000000 = ?tok"
    by code_simp
  have h1: "json_decode reflib (json_encode reflib ?v) = Some ?v"
    by code_simp
  have h2: "b64decode reflib (b64encode reflib (json_encode reflib ?v)) = Some (json_encode reflib ?v)"
    by code_simp
  have h3: "CHR ''|'' \<notin> set (b64encode reflib (json_encode reflib ?v))"
    by code_simp
  have h4: "CHR ''|'' \<notin> set (get_signature reflib ''s3cr3t''
      [''session'', encode reflib ?v, py_str (int_of_float 1288000000)])"
    by code_simp
  have h5: "map_of [(''session'', ?tok)] ''session'' =
      Some (get_signed_value reflib ''s3cr3t'' ''session'' ?v 1288000000)"
    by (simp add: tok)
  from round_trip [OF h1 h2 h3 h4 h5] tok show ?thesis
    by simp
qed

text \<open>
  Tampering with the token of the scenario: the last signature character changed from
  \<open>5\<close> to \<open>6\<close>, and the payload replaced by the encoding of \<open>{"uid": 1}\<close>.
\<close>

theorem tamper_detection_witness:
  "get_cookie reflib ''s3cr3t''
     [(''session'', ''eyJ1aWQiOjQyfQ==|1288000000|fd353013e1e6b1060186e0aa29d00e53e622ded6'')]
     ''session'' None 1288000000 = Inr JNull
   \<and> (get_signature reflib ''s3cr3t'' [''session'', ''eyJ1aWQiOjQyfQ=='', ''1288000000''])[39 := CHR ''6'']
       = ''fd353013e1e6b1060186e0aa29d00e53e622ded6''
   \<and> get_signature reflib ''s3cr3t'' [''session'', ''eyJ1aWQiOjF9'', ''1288000000'']
       \<noteq> get_signature reflib ''s3cr3t'' [''session'', ''eyJ1aWQiOjQyfQ=='', ''1288000000'']
   \<and> get_cookie reflib ''s3cr3t''
     [(''session'', ''eyJ1aWQiOjF9|1288000000|fd353013e1e6b1060186e0aa29d00e53e622ded5'')]
     ''session'' None 1288000000 = Inr JNull"
proof -
  let ?p = "''eyJ1aWQiOjQyfQ==''" and ?q = "''eyJ1aWQiOjF9''" and ?ts = "''1288000000''"
  let ?bad = "''eyJ1aWQiOjQyfQ==|1288000000|fd353013e1e6b1060186e0aa29d00e53e622ded6''"
  let ?swapped = "''eyJ1aWQiOjF9|1288000000|fd353013e1e6b1060186e0aa29d00e53e622ded5''"
  have sig: "get_signature reflib ''s3cr3t'' [''session'', ?p, ?ts] =
      ''fd353013e1e6b1060186e0aa29d00e53e622ded5''"
    by code_simp
  have sig': "get_signature reflib ''s3cr3t'' [''session'', ?q, ?ts] =
      ''9de105af2d5bedb98d97edf9542d4c9389bd60e4''"
    by code_simp
  have flip: "(get_signature reflib ''s3cr3t'' [''session'', ?p, ?ts])[39 := CHR ''6''] =
      ''fd353013e1e6b1060186e0aa29d00e53e622ded6''"
    unfolding sig by simp
  have a1: "map_of [(''session'', ?bad)] ''session'' = Some ?bad"
    by simp
  have a2: "split_char CHR ''|'' ?bad = [?p, ?ts, ''fd353013e1e6b1060186e0aa29d00e53e622ded6'']"
    by code_simp
  have a3: "''fd353013e1e6b1060186e0aa29d00e53e622ded6'' \<noteq>
      get_signature reflib ''s3cr3t'' [''session'', ?p, ?ts]"
    unfolding sig by simp
  have b1: "CHR ''|'' \<notin> set ?p" "CHR ''|'' \<notin> set ?q" "CHR ''|'' \<notin> set ?ts"
    by simp_all
  have b2: "39 < length (get_signature reflib ''s3cr3t'' [''session'', ?p, ?ts])"
    unfolding sig by simp
  have b3: "CHR ''6'' \<noteq> get_signature reflib ''s3cr3t'' [''session'', ?p, ?ts] ! 39"
    unfolding sig by code_simp
  have b4: "map_of [(''session'', ?bad)] ''session'' =
      Some (join ''|'' [?p, ?ts, (get_signature reflib ''s3cr3t'' [''session'', ?p, ?ts])[39 := CHR ''6'']])"
    unfolding flip by simp
  have c1: "get_signature reflib ''s3cr3t'' [''session'', ?q, ?ts] \<noteq>
      get_signature reflib ''s3cr3t'' [''session'', ?p, ?ts]"
    unfolding sig sig' by simp
  have c2: "map_of [(''session'', ?swapped)] ''session'' =
      Some (join ''|'' [?q, ?ts, get_signature reflib ''s3cr3t'' [''session'', ?p, ?ts]])"
    unfolding sig by simp
  have td1: "get_cookie reflib ''s3cr3t'' [(''session'', ?bad)] ''session'' None 1288000000 = Inr JNull"
    using tamper_detection [where jar = "[(''session'', ?bad)]" and n = "''session''"
        and val = ?bad and p = ?p and ts = ?ts and sg = "''fd353013e1e6b1060186e0aa29d00e53e622ded6''"
        and L = reflib and key = "''s3cr3t''" and max_age = None and now = 1288000000]
      a1 a2 a3
    by blast
  have td2: "get_cookie reflib ''s3cr3t'' [(''session'', ?bad)] ''session'' None 1288000000 = Inr JNull"
    using tamper_detection [where jar = "[(''session'', ?bad)]" and n = "''session''"
        and p = ?p and ts = ?ts and i = 39 and c = "CHR ''6''"
        and L = reflib and key = "''s3cr3t''" and max_age = None and now = 1288000000]
      b1 b2 b3 b4
    by blast
  have td3: "get_cookie reflib ''s3cr3t'' [(''session'', ?swapped)] ''session'' None 1288000000 = Inr JNull"
    using tamper_detection [where jar = "[(''session'', ?swapped)]" and n = "''session''"
        and p = ?p and p' = ?q and ts = ?ts
        and L = reflib and key = "''s3cr3t''" and max_age = None and now = 1288000000]
      b1 c1 c2
    by blast
  from td1 td2 td3 flip c1 show ?thesis
    by blast
qed


lemma length3: "length xs = 3 \<Longrightarrow> xs = [xs ! 0, xs ! 1, xs ! 2]"
  by (cases xs; cases "tl xs"; cases "tl (tl xs)") auto

text \<open>
  Nothing else escapes: an exception of \<open>get_cookie\<close> is that ValueError, and without
  \<open>max_age\<close> the call always returns.
\<close>

lemma get_cookie_raises:
  assumes "get_cookie L key jar n max_age now = Inl e"
  shows "e = ValueError \<and> max_age \<noteq> None \<and>
         (\<exists>val p ts. map_of jar n = Some val
            \<and> split_char CHR ''|'' val = [p, ts, get_signature L key [n, p, ts]]
            \<and> py_int ts = None)"
proof -
  from assms obtain val where val: "map_of jar n = Some val" "val \<noteq> []"
    "length (split_char CHR ''|'' val) = 3"
    by (auto simp: get_cookie_def Let_def split: option.splits if_splits)
  from length3 [OF val(3)] obtain p ts sg where sp: "split_char CHR ''|'' val = [p, ts, sg]"
    by blast
  from assms show ?thesis
    unfolding get_cookie_parts [OF val(1) sp]
    using val(1) sp
    by (auto split: if_splits option.splits)
qed

lemma get_cookie_no_max_age: "\<exists>v. get_cookie L key jar n None now = Inr v"
  using get_cookie_raises [of L key jar n None now]
  by (cases "get_cookie L key jar n None now") auto

text \<open>
  Claim C3 (no exception leaves \<open>get_cookie\<close>) fails on the code at such a cookie: the
  signature below is the HMAC-SHA1 of \<open>session|eyJ1aWQiOjQyfQ==|abc\<close> under \<open>s3cr3t\<close>.
\<close>

theorem get_cookie_value_error:
  "get_cookie reflib ''s3cr3t''
     [(''session'', ''eyJ1aWQiOjQyfQ==|abc|365fc04393e29efd869300719aa3f37c0df09bcd'')]
     ''session'' (Some 10) 1288000000 = Inl ValueError"
  by code_simp

section \<open>Flash messages\<close>

lemma add_flash_unset:
  "map_of (items s) k = None \<Longrightarrow>
   add_flash s v k = Inr (s\<lparr>items := AList.update k (JArr [v]) (AList.update k (JArr []) (items s)),
                             modified := True\<rparr>)"
  by (simp add: add_flash_def setdefault_def)

lemma add_flash_list:
  "map_of (items s) k = Some (JArr xs) \<Longrightarrow>
   add_flash s v k = Inr (s\<lparr>items := AList.update k (JArr (xs @ [v])) (items s), modified := True\<rparr>)"
  by (simp add: add_flash_def setdefault_def)

lemma get_flashes_set:
  "map_of (items s) k = Some v \<Longrightarrow>
   get_flashes s k = (v, s\<lparr>items := AList.delete k (items s), modified := True\<rparr>)"
  by (simp add: get_flashes_def pop_def)

lemma get_flashes_unset: "map_of (items s) k = None \<Longrightarrow> get_flashes s k = (JArr [], s)"
  by (simp add: get_flashes_def)

lemma flash_twice:
  assumes "map_of (items s) k = Some (JArr xs)"
  shows "\<exists>s1 s2 s3. add_flash s a k = Inr s1 \<and> add_flash s1 b k = Inr s2
           \<and> get_flashes s2 k = (JArr (xs @ [a, b]), s3) \<and> get_flashes s3 k = (JArr [], s3)"
proof -
  let ?s1 = "s\<lparr>items := AList.update k (JArr (xs @ [a])) (items s), modified := True\<rparr>"
  let ?s2 = "?s1\<lparr>items := AList.update k (JArr ((xs @ [a]) @ [b])) (items ?s1), modified := True\<rparr>"
  let ?s3 = "?s2\<lparr>items := AList.delete k (items ?s2), modified := True\<rparr>"
  have 1: "add_flash s a k = Inr ?s1"
    using assms by (rule add_flash_list)
  have m1: "map_of (items ?s1) k = Some (JArr (xs @ [a]))"
    by (simp add: update_conv')
  have 2: "add_flash ?s1 b k = Inr ?s2"
    using m1 by (rule add_flash_list)
  have m2: "map_of (items ?s2) k = Some (JArr (xs @ [a, b]))"
    by (simp add: update_conv')
  have 3: "get_flashes ?s2 k = (JArr (xs @ [a, b]), ?s3)"
    using m2 by (rule get_flashes_set)
  have m3: "map_of (items ?s3) k = None"
    by (simp add: delete_conv')
  have 4: "get_flashes ?s3 k = (JArr [], ?s3)"
    using m3 by (rule get_flashes_unset)
  from 1 2 3 4 show ?thesis by blast
qed

lemma flash_twice_unset:
  assumes "map_of (items s) k = None"
  shows "\<exists>s1 s2 s3. add_flash s a k = Inr s1 \<and> add_flash s1 b k = Inr s2
           \<and> get_flashes s2 k = (JArr [a, b], s3) \<and> get_flashes s3 k = (JArr [], s3)"
proof -
  let ?s1 = "s\<lparr>items := AList.update k (JArr [a]) (AList.update k (JArr []) (items s)),
                modified := True\<rparr>"
  let ?s2 = "?s1\<lparr>items := AList.update k (JArr ([a] @ [b])) (items ?s1), modified := True\<rparr>"
  let ?s3 = "?s2\<lparr>items := AList.delete k (items ?s2), modified := True\<rparr>"
  have 1: "add_flash s a k = Inr ?s1"
    using assms by (rule add_flash_unset)
  have m1: "map_of (items ?s1) k = Some (JArr [a])"
    by (simp add: update_conv')
  have 2: "add_flash ?s1 b k = Inr ?s2"
    using m1 by (rule add_flash_list)
  have m2: "map_of (items ?s2) k = Some (JArr [a, b])"
    by (simp add: update_conv')
  have 3: "get_flashes ?s2 k = (JArr [a, b], ?s3)"
    using m2 by (rule get_flashes_set)
  have m3: "map_of (items ?s3) k = None"
    by (simp add: delete_conv')
  have 4: "get_flashes ?s3 k = (JArr [], ?s3)"
    using m3 by (rule get_flashes_unset)
  from 1 2 3 4 show ?thesis by blast
qed

text \<open>
  Claim C8 (flash semantics), as the code has it. \<open>add_flash\<close> appends to what the session
  already holds under the key. For a session in which the flash key is unset or holds the
  empty list, \<open>add_flash(a)\<close>, \<open>add_flash(b)\<close>, \<open>get_flashes()\<close> returns \<open>[a, b]\<close>; for one
  in which it holds the list \<open>xs\<close> the result is \<open>xs + [a, b]\<close>. In both cases the stored
  sequence is removed, so the next \<open>get_flashes()\<close> returns \<open>[]\<close>. For a session in which
  the key is not set, \<open>get_flashes()\<close> returns \<open>[]\<close> and leaves the session, its
  \<open>modified\<close> flag included, as it was.
\<close>

theorem flash_semantics:
  "(map_of (items s) k = None \<or> map_of (items s) k = Some (JArr []) \<longrightarrow>
      (\<exists>s1 s2 s3. add_flash s a k = Inr s1 \<and> add_flash s1 b k = Inr s2
         \<and> get_flashes s2 k = (JArr [a, b], s3) \<and> get_flashes s3 k = (JArr [], s3)))
   \<and> (map_of (items s) k = Some (JArr xs) \<longrightarrow>
      (\<exists>s1 s2 s3. add_flash s a k = Inr s1 \<and> add_flash s1 b k = Inr s2
         \<and> get_flashes s2 k = (JArr (xs @ [a, b]), s3) \<and> get_flashes s3 k = (JArr [], s3)))
   \<and> (map_of (items s) k = None \<longrightarrow> get_flashes s k = (JArr [], s))"
  using flash_twice [of s k "[]" a b] flash_twice [of s k xs a b] flash_twice_unset [of s k a b]
    get_flashes_unset [of s k]
  by auto

text \<open>
  The sequence of the specification on a new, empty session.
\<close>

theorem flash_semantics_witness:
  "add_flash (new_session []) (JStr ''a'') ''_flash'' =
     Inr \<lparr>items = [(''_flash'', JArr [JStr ''a''])], modified = True\<rparr>
   \<and> add_flash \<lparr>items = [(''_flash'', JArr [JStr ''a''])], modified = True\<rparr> (JStr ''b'') ''_flash'' =
     Inr \<lparr>items = [(''_flash'', JArr [JStr ''a'', JStr ''b''])], modified = True\<rparr>
   \<and> get_flashes \<lparr>items = [(''_flash'', JArr [JStr ''a'', JStr ''b''])], modified = True\<rparr> ''_flash'' =
     (JArr [JStr ''a'', JStr ''b''], \<lparr>items = [], modified = True\<rparr>)
   \<and> get_flashes \<lparr>items = [], modified = True\<rparr> ''_flash'' = (JArr [], \<lparr>items = [], modified = True\<rparr>)
   \<and> get_flashes (new_session []) ''_flash'' = (JArr [], new_session [])"
proof -
  have u: "map_of (items (new_session [])) ''_flash'' = None"
    by (simp add: new_session_def)
  have 1: "add_flash (new_session []) (JStr ''a'') ''_flash'' =
      Inr \<lparr>items = [(''_flash'', JArr [JStr ''a''])], modified = True\<rparr>"
    by code_simp
  have 2: "add_flash \<lparr>items = [(''_flash'', JArr [JStr ''a''])], modified = True\<rparr> (JStr ''b'') ''_flash'' =
      Inr \<lparr>items = [(''_flash'', JArr [JStr ''a'', JStr ''b''])], modified = True\<rparr>"
    by code_simp
  have 3: "get_flashes \<lparr>items = [(''_flash'', JArr [JStr ''a'', JStr ''b''])], modified = True\<rparr> ''_flash'' =
      (JArr [JStr ''a'', JStr ''b''], \<lparr>items = [], modified = True\<rparr>)"
    by code_simp
  from flash_semantics [of "new_session []" "''_flash''" "JStr ''a''" "JStr ''b''" "[]"] u
  obtain s1 s2 s3 where
    "add_flash (new_session []) (JStr ''a'') ''_flash'' = Inr s1"
    "add_flash s1 (JStr ''b'') ''_flash'' = Inr s2"
    "get_flashes s2 ''_flash'' = (JArr [JStr ''a'', JStr ''b''], s3)"
    "get_flashes s3 ''_flash'' = (JArr [], s3)"
    and e: "get_flashes (new_session []) ''_flash'' = (JArr [], new_session [])"
    by blast
  with 1 2 3 show ?thesis
    by simp
qed

text \<open>
  Claim C8 as stated ("for every session") fails for a session that already holds the
  flash \<open>x\<close>: the two \<open>add_flash\<close> calls succeed and \<open>get_flashes()\<close> returns
  \<open>["x", "a", "b"]\<close>, not \<open>["a", "b"]\<close>.
\<close>

theorem flash_semantics_counterexample:
  "add_flash \<lparr>items = [(''_flash'', JArr [JStr ''x''])], modified = False\<rparr> (JStr ''a'') ''_flash'' =
     Inr \<lparr>items = [(''_flash'', JArr [JStr ''x'', JStr ''a''])], modified = True\<rparr>
   \<and> add_flash \<lparr>items = [(''_flash'', JArr [JStr ''x'', JStr ''a''])], modified = True\<rparr>
       (JStr ''b'') ''_flash'' =
     Inr \<lparr>items = [(''_flash'', JArr [JStr ''x'', JStr ''a'', JStr ''b''])], modified = True\<rparr>
   \<and> fst (get_flashes \<lparr>items = [(''_flash'', JArr [JStr ''x'', JStr ''a'', JStr ''b''])],
                         modified = True\<rparr> ''_flash'') \<noteq> JArr [JStr ''a'', JStr ''b'']"
  by code_simp

section \<open>Saving\<close>

lemma save_session_unmodified: "\<not> modified s \<Longrightarrow> save_session L now s resp st name kw = Inr resp"
  by (simp add: save_session_def)

lemma save_session_modified:
  "modified s \<Longrightarrow> save_session L now s resp st name kw =
     Inr (resp @ [SetCookie name (get_signed_value L (secret_key (config st)) name (JObj (items s)) now)
                    (get_cookie_args st kw)])"
  by (simp add: save_session_def set_secure_cookie_def store_set_cookie_def)

lemma save_tracked_unmodified:
  assumes "\<forall>(k, (a, kw)) \<in> set d. \<exists>s. deref st a = Some s \<and> \<not> modified s"
  shows "save_tracked L now st d resp = Inr resp"
  using assms
  by (induction d) (auto simp: save_session_unmodified)

lemma save_backends_unmodified:
  assumes "\<forall>(b, d) \<in> set bs. \<forall>(k, (a, kw)) \<in> set d. \<exists>s. deref st a = Some s \<and> \<not> modified s"
  shows "save_backends L now st bs resp = Inr resp"
  using assms
  by (induction bs) (auto simp: save_tracked_unmodified)

text \<open>
  Claim C7 (unmodified sessions are not saved again). \<open>save_session\<close> returns the response
  unchanged for a session whose \<open>modified\<close> flag is false, and appends exactly one
  \<open>set_cookie\<close> call, carrying the signed session contents, when the flag is true. Hence
  \<open>SessionStore.save\<close> leaves the response unchanged when no plain cookie is tracked and
  every tracked session is unmodified.
\<close>

theorem unmodified_session_not_saved:
  "(\<not> modified s \<longrightarrow> save_session L now s resp st name kw = Inr resp)
   \<and> (modified s \<longrightarrow>
        save_session L now s resp st name kw =
          Inr (resp @ [SetCookie name
                         (get_signed_value L (secret_key (config st)) name (JObj (items s)) now)
                         (get_cookie_args st kw)]))
   \<and> (cookies st = [] \<longrightarrow>
        (\<forall>(b, d) \<in> set (sessions st). \<forall>(k, (a, kw)) \<in> set d.
            \<exists>s. deref st a = Some s \<and> \<not> modified s) \<longrightarrow>
        save L now st resp = Inr resp)"
  by (simp add: save_session_unmodified save_session_modified save_def save_backends_unmodified)

section \<open>Tracking\<close>

lemma get_session_tracked:
  assumes "map_of (sessions st) (or_default backend (default_backend (config st))) = Some d"
    and "map_of d (or_default key (cookie_name (config st))) = Some (a, kw0)"
  shows "get_session L now st key backend kw = Inr (a, st)"
  using assms by (simp add: get_session_def Let_def sessions_setdefault_def)

lemma get_session_result:
  assumes "get_session L now st key backend kw = Inr (a, st')"
  shows "\<exists>d kw0. map_of (sessions st') (or_default backend (default_backend (config st'))) = Some d
           \<and> map_of d (or_default key (cookie_name (config st'))) = Some (a, kw0)"
  using assms
  by (auto simp: get_session_def Let_def sessions_setdefault_def securecookie_get_session_def
      alloc_def update_conv' split: option.splits sum.splits backend.splits if_splits)


lemma list_all_update:
  "list_all P al \<Longrightarrow> P (k, v) \<Longrightarrow> list_all P (AList.update k v al)"
  by (induction al) auto

lemma map_of_list_all: "list_all P al \<Longrightarrow> map_of al k = Some v \<Longrightarrow> P (k, v)"
  by (auto simp: list_all_iff dest: map_of_SomeD)

lemma tracked_valid_lookup:
  assumes "tracked_valid st" "map_of (sessions st) b = Some d" "map_of d k = Some (a, kw0)"
  shows "a < length (heap st)"
proof -
  from assms(1,2) have "list_all (\<lambda>(k, (a, kw)). a < length (heap st)) d"
    unfolding tracked_valid_def by (auto dest: map_of_list_all)
  with assms(3) show ?thesis
    by (auto dest: map_of_list_all)
qed

lemma tracked_valid_setdefault:
  "tracked_valid st \<Longrightarrow> tracked_valid (st\<lparr>sessions := AList.update b [] (sessions st)\<rparr>)"
  by (simp add: tracked_valid_def list_all_update)

lemma tracked_valid_alloc_update:
  assumes "tracked_valid st" "map_of (sessions st) b = Some d"
  shows "tracked_valid (st\<lparr>heap := heap st @ [s],
           sessions := AList.update b (AList.update k (length (heap st), kw) d) (sessions st)\<rparr>)"
proof -
  let ?P = "\<lambda>n (k, (a :: nat, kw :: kwargs)). a < n"
  have mono: "list_all (?P (length (heap st))) xs \<Longrightarrow> list_all (?P (Suc (length (heap st)))) xs"
    for xs :: "(string \<times> (addr \<times> kwargs)) list"
    by (induction xs) auto
  from assms have d: "list_all (?P (length (heap st))) d"
    unfolding tracked_valid_def by (auto dest: map_of_list_all)
  have "list_all (?P (Suc (length (heap st)))) (AList.update k (length (heap st), kw) d)"
    using d by (intro list_all_update mono) auto
  moreover have "list_all (\<lambda>(b, d). list_all (?P (Suc (length (heap st)))) d) (sessions st)"
    using assms(1) unfolding tracked_valid_def by (fastforce simp: list_all_iff)
  ultimately show ?thesis
    unfolding tracked_valid_def by (simp add: list_all_update)
qed

lemma securecookie_get_session_result:
  assumes "securecookie_get_session L now st k kw = Inr (a, st2)"
  shows "\<exists>kvs. a = length (heap st) \<and> st2 = st\<lparr>heap := heap st @ [new_session kvs]\<rparr>"
  using assms
  by (auto simp: securecookie_get_session_def alloc_def split: sum.splits if_splits)

lemma get_session_setdefault:
  assumes "map_of (sessions st) (or_default backend (default_backend (config st))) = None"
  shows "get_session L now st key backend kw =
     get_session L now
       (st\<lparr>sessions := AList.update (or_default backend (default_backend (config st))) []
                          (sessions st)\<rparr>) key backend kw"
  using assms by (simp add: get_session_def Let_def sessions_setdefault_def update_conv')

lemma get_session_untracked:
  assumes "map_of (sessions st) (or_default backend (default_backend (config st))) = Some d"
    and "map_of d (or_default key (cookie_name (config st))) = None"
    and "get_session L now st key backend kw = Inr (a, st')"
  shows "\<exists>kvs. a = length (heap st) \<and>
           st' = st\<lparr>heap := heap st @ [new_session kvs],
                    sessions := AList.update (or_default backend (default_backend (config st)))
                      (AList.update (or_default key (cookie_name (config st)))
                         (length (heap st), get_cookie_args st kw) d) (sessions st)\<rparr>"
proof -
  let ?k = "or_default key (cookie_name (config st))"
  let ?b = "or_default backend (default_backend (config st))"
  from assms obtain st2 where
    load: "securecookie_get_session L now st ?k (get_cookie_args st kw) = Inr (a, st2)"
    and res: "(case map_of (sessions st2) ?b of
                 None \<Rightarrow> Inl KeyError
               | Some d' \<Rightarrow> Inr (a, st2\<lparr>sessions :=
                     AList.update ?b (AList.update ?k (a, get_cookie_args st kw) d') (sessions st2)\<rparr>))
               = (Inr (a, st') :: error + (addr \<times> store))"
    by (auto simp: get_session_def Let_def sessions_setdefault_def
        split: option.splits sum.splits backend.splits)
  from securecookie_get_session_result [OF load] obtain kvs where
    k: "a = length (heap st)" "st2 = st\<lparr>heap := heap st @ [new_session kvs]\<rparr>"
    by blast
  from res k assms(1) show ?thesis
    by auto
qed

lemma get_session_valid_dict:
  assumes "tracked_valid st"
    and "map_of (sessions st) (or_default backend (default_backend (config st))) = Some d"
    and "get_session L now st key backend kw = Inr (a, st')"
  shows "a < length (heap st') \<and> tracked_valid st'"
proof (cases "map_of d (or_default key (cookie_name (config st)))")
  case (Some p)
  obtain a0 kw0 where p: "p = (a0, kw0)" by (cases p)
  from get_session_tracked [OF assms(2) Some [unfolded p], of L now kw] assms(3)
  have "a = a0" "st' = st" by simp_all
  with assms(1,2) Some p show ?thesis
    by (auto dest: tracked_valid_lookup)
next
  case None
  from get_session_untracked [OF assms(2) None assms(3)] assms(1,2) show ?thesis
    by (auto intro: tracked_valid_alloc_update)
qed

lemma get_session_valid:
  assumes "tracked_valid st" "get_session L now st key backend kw = Inr (a, st')"
  shows "a < length (heap st') \<and> tracked_valid st'"
proof (cases "map_of (sessions st) (or_default backend (default_backend (config st)))")
  case (Some d)
  from assms(1) Some assms(2) show ?thesis
    by (rule get_session_valid_dict)
next
  case None
  let ?b = "or_default backend (default_backend (config st))"
  let ?st1 = "st\<lparr>sessions := AList.update ?b [] (sessions st)\<rparr>"
  have "tracked_valid ?st1"
    using assms(1) by (rule tracked_valid_setdefault)
  moreover have "map_of (sessions ?st1) (or_default backend (default_backend (config ?st1))) = Some []"
    by (simp add: update_conv')
  moreover have "get_session L now ?st1 key backend kw = Inr (a, st')"
    using assms(2) get_session_setdefault [OF None] by simp
  ultimately show ?thesis
    by (rule get_session_valid_dict)
qed

text \<open>
  A tracked entry stays: \<open>get_session\<close> reads only \<open>_sessions\<close> and the configuration to
  find it, and neither a \<open>get_session\<close> call nor a \<open>set_session\<close> for another pair
  removes or replaces it.
\<close>

lemma get_session_frame:
  assumes "map_of (sessions st) (or_default backend (default_backend (config st))) = Some d"
    and "map_of d (or_default key (cookie_name (config st))) = Some (a, kw0)"
    and "sessions st2 = sessions st" "config st2 = config st"
  shows "get_session L now st2 key backend kw = Inr (a, st2)"
  using assms by (intro get_session_tracked [where d = d and ?kw0.0 = kw0]) simp_all

lemma get_session_preserves:
  assumes "map_of (sessions st) b = Some d" "map_of d k = Some (a, kw0)"
    and "get_session L now st key backend kw = Inr (a', st')"
  shows "config st' = config st \<and>
         (\<exists>d' kw1. map_of (sessions st') b = Some d' \<and> map_of d' k = Some (a, kw1))"
  using assms
  by (auto simp: get_session_def Let_def sessions_setdefault_def securecookie_get_session_def
      alloc_def update_conv' split: option.splits sum.splits backend.splits if_splits)

lemma set_session_preserves:
  assumes "map_of (sessions st) b = Some d" "map_of d k = Some (a, kw0)"
    and "set_session st key a' backend kw = Inr st'"
    and "(or_default backend (default_backend (config st)), key) \<noteq> (b, k)"
  shows "config st' = config st \<and>
         (\<exists>d' kw1. map_of (sessions st') b = Some d' \<and> map_of d' k = Some (a, kw1))"
  using assms
  by (auto simp: set_session_def Let_def update_conv' split: option.splits if_splits)

text \<open>
  Claim C6 (session identity). When \<open>get_session\<close> has returned the object \<open>a\<close> and the
  store \<open>st'\<close>, every later \<open>get_session\<close> with the same key and backend returns the same
  object \<open>a\<close> and leaves the store as it is: no object is created, and neither the
  clock, the options, the library nor the request cookies are consulted, so the backend
  does not load again. That also holds after the object has been mutated through the
  first reference (the second reference then reads the mutated object), after any change
  of the store that leaves \<open>_sessions\<close> and the configuration alone (\<open>set_cookie\<close>,
  \<open>unset_cookie\<close>, \<open>delete_cookie\<close>), after any other \<open>get_session\<close> call, whatever its
  key and backend, and after a \<open>set_session\<close> for another pair. Each of these ends in the
  hypothesis of the theorem again, so one pair has one object through any sequence of
  such calls.
\<close>

theorem session_identity:
  assumes "get_session L now st key backend kw = Inr (a, st')"
  shows "get_session L now' st' key backend kw' = Inr (a, st')
    \<and> get_session L' now' (st'\<lparr>request_cookies := jar, heap := (heap st')[a := s1]\<rparr>) key backend kw' =
        Inr (a, st'\<lparr>request_cookies := jar, heap := (heap st')[a := s1]\<rparr>)
    \<and> (tracked_valid st \<longrightarrow> deref (st'\<lparr>heap := (heap st')[a := s1]\<rparr>) a = Some s1)
    \<and> (sessions st'' = sessions st' \<and> config st'' = config st' \<longrightarrow>
         get_session L' now' st'' key backend kw' = Inr (a, st''))
    \<and> (get_session L'' now'' st' key' backend' kw'' = Inr (a', st'') \<longrightarrow>
         get_session L' now' st'' key backend kw' = Inr (a, st''))
    \<and> (set_session st' k a' backend' kw'' = Inr st''
         \<and> (or_default backend' (default_backend (config st')), k)
             \<noteq> (or_default backend (default_backend (config st')),
                or_default key (cookie_name (config st'))) \<longrightarrow>
         get_session L' now' st'' key backend kw' = Inr (a, st''))"
proof -
  let ?b = "or_default backend (default_backend (config st'))"
  let ?k = "or_default key (cookie_name (config st'))"
  from get_session_result [OF assms] obtain d kw0 where
    d: "map_of (sessions st') ?b = Some d" "map_of d ?k = Some (a, kw0)"
    by blast
  have 1: "get_session L now' st' key backend kw' = Inr (a, st')"
    using d by (rule get_session_tracked)
  have 2: "get_session L' now' (st'\<lparr>request_cookies := jar, heap := (heap st')[a := s1]\<rparr>) key backend kw' =
        Inr (a, st'\<lparr>request_cookies := jar, heap := (heap st')[a := s1]\<rparr>)"
    using d by (intro get_session_tracked) simp_all
  have 3: "deref (st'\<lparr>heap := (heap st')[a := s1]\<rparr>) a = Some s1" if "tracked_valid st"
    using get_session_valid [OF that assms] by (simp add: deref_def)
  have 4: "get_session L' now' st'' key backend kw' = Inr (a, st'')"
    if "sessions st'' = sessions st' \<and> config st'' = config st'"
    using d that by (intro get_session_frame) simp_all
  have 5: "get_session L' now' st'' key backend kw' = Inr (a, st'')"
    if "get_session L'' now'' st' key' backend' kw'' = Inr (a', st'')"
  proof -
    from get_session_preserves [OF d that] obtain d' kw1 where
      "config st'' = config st'" "map_of (sessions st'') ?b = Some d'" "map_of d' ?k = Some (a, kw1)"
      by blast
    then show ?thesis
      by (intro get_session_tracked [where d = d' and ?kw0.0 = kw1]) simp_all
  qed
  have 6: "get_session L' now' st'' key backend kw' = Inr (a, st'')"
    if "set_session st' k a' backend' kw'' = Inr st''
         \<and> (or_default backend' (default_backend (config st')), k) \<noteq> (?b, ?k)"
  proof -
    from that set_session_preserves [OF d, of k a' backend' kw'' st''] obtain d' kw1 where
      "config st'' = config st'" "map_of (sessions st'') ?b = Some d'" "map_of d' ?k = Some (a, kw1)"
      by blast
    then show ?thesis
      by (intro get_session_tracked [where d = d' and ?kw0.0 = kw1]) simp_all
  qed
  from 1 2 3 4 5 6 show ?thesis by blast
qed

text \<open>
  Claim C9 (\<open>set_session\<close> overwrites in every store state) fails on the code for a store in
  which nothing has been tracked yet: \<open>self._sessions[backend]\<close> raises KeyError, whatever
  the key, value, backend and options are. \<open>get_session\<close> creates the dictionary with
  \<open>setdefault\<close>; \<open>set_session\<close> does not.
\<close>

theorem set_session_new_store:
  "set_session (new_store cfg jar) key a backend kw = Inl KeyError"
  by (simp add: set_session_def new_store_def Let_def)

text \<open>
  Once the backend's dictionary exists, \<open>set_session\<close> tracks the value and \<open>get_session\<close>
  returns it, for a key that is not empty (\<open>get_session\<close> replaces an empty key by the
  configured cookie name, \<open>set_session\<close> does not).
\<close>

lemma set_session_then_get:
  assumes "map_of (sessions st) (or_default backend (default_backend (config st))) = Some d"
  shows "\<exists>st'. set_session st key a backend kw = Inr st'
           \<and> (key \<noteq> [] \<longrightarrow> get_session L now st' (Some key) backend kw' = Inr (a, st'))"
proof -
  let ?b = "or_default backend (default_backend (config st))"
  let ?st' = "st\<lparr>sessions := AList.update ?b (AList.update key (a, get_cookie_args st kw) d) (sessions st)\<rparr>"
  have "set_session st key a backend kw = Inr ?st'"
    using assms by (simp add: set_session_def Let_def)
  moreover have "get_session L now ?st' (Some key) backend kw' = Inr (a, ?st')" if "key \<noteq> []"
    using that
    by (intro get_session_tracked [where d = "AList.update key (a, get_cookie_args st kw) d"
          and ?kw0.0 = "get_cookie_args st kw"])
       (simp_all add: update_conv' or_default_def)
  ultimately show ?thesis by blast
qed

lemma get_session_absent_cookie_dict:
  assumes "map_of (backends st) ''securecookie'' = Some SecureCookieSession"
    and "map_of (sessions st) ''securecookie'' = Some d"
    and "map_of d (or_default key (cookie_name (config st))) = None"
    and "get_secure_cookie L now st (or_default key (cookie_name (config st))) None = Inr JNull"
  shows "\<exists>st'. get_session L now st key (Some ''securecookie'') kw = Inr (length (heap st), st')
           \<and> deref st' (length (heap st)) = Some (new_session [])
           \<and> is_tracked st' ''securecookie'' (or_default key (cookie_name (config st)))"
proof -
  let ?k = "or_default key (cookie_name (config st))"
  let ?b = "''securecookie''"
  let ?st' = "st\<lparr>heap := heap st @ [new_session []],
      sessions := AList.update ?b (AList.update ?k (length (heap st), get_cookie_args st kw) d)
        (sessions st)\<rparr>"
  have load: "securecookie_get_session L now st ?k (get_cookie_args st kw) =
      Inr (length (heap st), st\<lparr>heap := heap st @ [new_session []]\<rparr>)"
    using assms(4) by (simp add: securecookie_get_session_def alloc_def)
  have "get_session L now st key (Some ?b) kw = Inr (length (heap st), ?st')"
    using assms(1,2,3) load
    by (simp add: get_session_def Let_def sessions_setdefault_def or_default_def)
  moreover have "deref ?st' (length (heap st)) = Some (new_session [])"
    by (simp add: deref_def)
  moreover have "is_tracked ?st' ?b ?k"
    by (simp add: is_tracked_def update_conv')
  ultimately show ?thesis by blast
qed

lemma get_session_absent_cookie:
  assumes "map_of (backends st) ''securecookie'' = Some SecureCookieSession"
    and "\<not> is_tracked st ''securecookie'' (or_default key (cookie_name (config st)))"
    and "get_secure_cookie L now st (or_default key (cookie_name (config st))) None = Inr JNull"
  shows "\<exists>st'. get_session L now st key (Some ''securecookie'') kw = Inr (length (heap st), st')
           \<and> deref st' (length (heap st)) = Some (new_session [])
           \<and> is_tracked st' ''securecookie'' (or_default key (cookie_name (config st)))"
proof (cases "map_of (sessions st) ''securecookie''")
  case (Some d)
  with assms(2) have "map_of d (or_default key (cookie_name (config st))) = None"
    by (cases "map_of d (or_default key (cookie_name (config st)))") (auto simp: is_tracked_def)
  with assms(1,3) Some show ?thesis
    by (intro get_session_absent_cookie_dict)
next
  case None
  let ?st1 = "st\<lparr>sessions := AList.update ''securecookie'' [] (sessions st)\<rparr>"
  have b: "or_default (Some ''securecookie'') (default_backend (config st)) = ''securecookie''"
    by (simp add: or_default_def)
  have eq: "get_session L now st key (Some ''securecookie'') kw =
      get_session L now ?st1 key (Some ''securecookie'') kw"
    using get_session_setdefault [of st "Some ''securecookie''" L now key kw] None
    by (simp add: b)
  have "\<exists>st'. get_session L now ?st1 key (Some ''securecookie'') kw = Inr (length (heap ?st1), st')
           \<and> deref st' (length (heap ?st1)) = Some (new_session [])
           \<and> is_tracked st' ''securecookie'' (or_default key (cookie_name (config ?st1)))"
    using assms(1,3)
    by (intro get_session_absent_cookie_dict [where d = "[]"])
       (simp_all add: update_conv' get_secure_cookie_def)
  with eq show ?thesis
    by simp
qed

text \<open>
  Claim C10 (the handler's \<open>get_secure_cookie\<close>). The mixin method is
  \<open>get_session(key, backend='securecookie')\<close>. Where \<open>SessionStore.get_secure_cookie\<close>
  returns None for the key (cookie missing, tampered or expired) and the key is not yet
  tracked, the mixin method returns a new session object that is empty and unmodified, and
  tracks it. Whenever it returns, the result denotes a session object of the heap.
\<close>

theorem mixin_get_secure_cookie_returns_session:
  "mixin_get_secure_cookie L now st key kw = get_session L now st key (Some ''securecookie'') kw
   \<and> (map_of (backends st) ''securecookie'' = Some SecureCookieSession \<longrightarrow>
      \<not> is_tracked st ''securecookie'' (or_default key (cookie_name (config st))) \<longrightarrow>
      get_secure_cookie L now st (or_default key (cookie_name (config st))) None = Inr JNull \<longrightarrow>
      (\<exists>st'. mixin_get_secure_cookie L now st key kw = Inr (length (heap st), st')
         \<and> deref st' (length (heap st)) = Some (new_session [])
         \<and> is_tracked st' ''securecookie'' (or_default key (cookie_name (config st)))))
   \<and> (tracked_valid st \<longrightarrow> mixin_get_secure_cookie L now st key kw = Inr (a, st') \<longrightarrow>
      (\<exists>s. deref st' a = Some s) \<and> tracked_valid st')"
  using get_session_absent_cookie [of st key L now kw]
    get_session_valid [of st L now key "Some ''securecookie''" kw a st']
  by (auto simp: mixin_get_secure_cookie_def deref_def)


text \<open>
  The session of the scenario, unmodified and modified, and \<open>save\<close> on the store that has
  loaded it.
\<close>

theorem unmodified_session_not_saved_witness:
  "save_session reflib 1288000000 (new_session [(''uid'', JInt 42)]) [] scenario_store ''session'' []
     = Inr []
   \<and> save_session reflib 1288000000 \<lparr>items = [(''uid'', JInt 42)], modified = True\<rparr> []
       scenario_store ''session'' []
     = Inr [SetCookie ''session'' scenario_token (cookie_args (default_config ''s3cr3t''))]
   \<and> save reflib 1288000000 scenario_loaded [] = Inr []"
proof -
  let ?u = "new_session [(''uid'', JInt 42)]"
  let ?m = "\<lparr>items = [(''uid'', JInt 42)], modified = True\<rparr>"
  have u: "\<not> modified ?u"
    by (simp add: new_session_def)
  have m: "modified ?m"
    by simp
  have tok: "get_signed_value reflib (secret_key (config scenario_store)) ''session''
      (JObj (items ?m)) 1288000000 = scenario_token"
    by code_simp
  have args: "get_cookie_args scenario_store [] = cookie_args (default_config ''s3cr3t'')"
    by code_simp
  have c: "cookies scenario_loaded = []"
    by code_simp
  have t: "\<forall>(b, d) \<in> set (sessions scenario_loaded). \<forall>(k, (a, kw)) \<in> set d.
      \<exists>s. deref scenario_loaded a = Some s \<and> \<not> modified s"
    by (simp add: scenario_loaded_def deref_def new_session_def)
  have 1: "save_session reflib 1288000000 ?u [] scenario_store ''session'' [] = Inr []"
    using unmodified_session_not_saved [where s = ?u and L = reflib and now = 1288000000
        and resp = "[]" and st = scenario_store and name = "''session''" and kw = "[]"] u
    by blast
  have 2: "save_session reflib 1288000000 ?m [] scenario_store ''session'' [] =
      Inr [SetCookie ''session'' scenario_token (cookie_args (default_config ''s3cr3t''))]"
    using unmodified_session_not_saved [where s = ?m and L = reflib and now = 1288000000
        and resp = "[]" and st = scenario_store and name = "''session''" and kw = "[]"]
      m tok args
    by simp
  have 3: "save reflib 1288000000 scenario_loaded [] = Inr []"
    using unmodified_session_not_saved [where s = ?u and L = reflib and now = 1288000000
        and resp = "[]" and st = scenario_loaded and name = "''session''" and kw = "[]"]
      c t
    by blast
  from 1 2 3 show ?thesis by blast
qed

text \<open>
  Two \<open>get_session()\<close> calls on the store of the scenario, the second one also after the
  session has been changed through the first reference and the request cookie removed,
  after a \<open>set_cookie\<close>, after \<open>get_session('foo')\<close> has loaded a second session, and after
  \<open>set_session('bar', ...)\<close>.
\<close>

theorem session_identity_witness:
  "get_session reflib 1288000000 scenario_store None None [] = Inr (0, scenario_loaded)
   \<and> get_session reflib 1288000005 scenario_loaded None None [] = Inr (0, scenario_loaded)
   \<and> get_session reflib 1288000005
        (scenario_loaded\<lparr>request_cookies := [],
           heap := (heap scenario_loaded)[0 := \<lparr>items = [(''uid'', JInt 7)], modified = True\<rparr>]\<rparr>)
        None None []
      = Inr (0, scenario_loaded\<lparr>request_cookies := [],
           heap := (heap scenario_loaded)[0 := \<lparr>items = [(''uid'', JInt 7)], modified = True\<rparr>]\<rparr>)
   \<and> deref (scenario_loaded\<lparr>heap :=
          (heap scenario_loaded)[0 := \<lparr>items = [(''uid'', JInt 7)], modified = True\<rparr>]\<rparr>) 0
      = Some \<lparr>items = [(''uid'', JInt 7)], modified = True\<rparr>
   \<and> get_session reflib 1288000005 (set_cookie scenario_loaded ''lang'' ''en'' []) None None []
      = Inr (0, set_cookie scenario_loaded ''lang'' ''en'' [])
   \<and> get_session reflib 1288000002 scenario_loaded (Some ''foo'') None [] = Inr (1, scenario_foo)
   \<and> get_session reflib 1288000005 scenario_foo None None [] = Inr (0, scenario_foo)
   \<and> set_session scenario_loaded ''bar'' 0 None [] = Inr scenario_bar
   \<and> get_session reflib 1288000005 scenario_bar None None [] = Inr (0, scenario_bar)"
proof -
  have h: "get_session reflib 1288000000 scenario_store None None [] = Inr (0, scenario_loaded)"
    by code_simp
  have v: "tracked_valid scenario_store"
    by code_simp
  have c: "sessions (set_cookie scenario_loaded ''lang'' ''en'' []) = sessions scenario_loaded
      \<and> config (set_cookie scenario_loaded ''lang'' ''en'' []) = config scenario_loaded"
    by (simp add: set_cookie_def)
  have f: "get_session reflib 1288000002 scenario_loaded (Some ''foo'') None [] = Inr (1, scenario_foo)"
    by code_simp
  have b: "set_session scenario_loaded ''bar'' 0 None [] = Inr scenario_bar
      \<and> (or_default None (default_backend (config scenario_loaded)), ''bar'')
          \<noteq> (or_default None (default_backend (config scenario_loaded)),
             or_default None (cookie_name (config scenario_loaded)))"
    by code_simp
  note id = session_identity [OF h, where now' = 1288000005 and kw' = "[]" and L' = reflib
      and jar = "[]" and ?s1.0 = "\<lparr>items = [(''uid'', JInt 7)], modified = True\<rparr>"]
  from id [where st'' = "set_cookie scenario_loaded ''lang'' ''en'' []"] c
  have 1: "get_session reflib 1288000005 (set_cookie scenario_loaded ''lang'' ''en'' []) None None []
      = Inr (0, set_cookie scenario_loaded ''lang'' ''en'' [])"
    by blast
  from id [where st'' = scenario_foo and L'' = reflib and now'' = 1288000002 and key' = "Some ''foo''"
      and backend' = None and kw'' = "[]" and a' = 1] f
  have 2: "get_session reflib 1288000005 scenario_foo None None [] = Inr (0, scenario_foo)"
    by blast
  from id [where st'' = scenario_bar and k = "''bar''" and a' = 0 and backend' = None
      and kw'' = "[]"] b
  have 3: "get_session reflib 1288000005 scenario_bar None None [] = Inr (0, scenario_bar)"
    by blast
  from id [where st'' = scenario_loaded] h v 1 2 3 f b show ?thesis
    by blast
qed

text \<open>
  A request without the cookie, one with a tampered signature, and one with the token of
  the scenario read eleven seconds later under \<open>session_max_age = 10\<close>.
\<close>

theorem mixin_get_secure_cookie_returns_session_witness:
  "get_secure_cookie reflib 1288000000 (new_store (default_config ''s3cr3t'') []) ''session'' None
     = Inr JNull
   \<and> (case mixin_get_secure_cookie reflib 1288000000 (new_store (default_config ''s3cr3t'') []) None []
       of Inl e \<Rightarrow> False
        | Inr (a, st') \<Rightarrow> a = 0 \<and> deref st' a = Some (new_session []) \<and> tracked_valid st')
   \<and> get_secure_cookie reflib 1288000000
       (new_store (default_config ''s3cr3t'')
          [(''session'', ''eyJ1aWQiOjQyfQ==|1288000000|fd353013e1e6b1060186e0aa29d00e53e622ded6'')])
       ''session'' None = Inr JNull
   \<and> (case mixin_get_secure_cookie reflib 1288000000
         (new_store (default_config ''s3cr3t'')
            [(''session'', ''eyJ1aWQiOjQyfQ==|1288000000|fd353013e1e6b1060186e0aa29d00e53e622ded6'')])
         None []
       of Inl e \<Rightarrow> False
        | Inr (a, st') \<Rightarrow> a = 0 \<and> deref st' a = Some (new_session []))
   \<and> get_secure_cookie reflib 1288000011
       (new_store ((default_config ''s3cr3t'')\<lparr>session_max_age := Some 10\<rparr>)
          [(''session'', scenario_token)])
       ''session'' None = Inr JNull
   \<and> (case mixin_get_secure_cookie reflib 1288000011
         (new_store ((default_config ''s3cr3t'')\<lparr>session_max_age := Some 10\<rparr>)
            [(''session'', scenario_token)])
         None []
       of Inl e \<Rightarrow> False
        | Inr (a, st') \<Rightarrow> a = 0 \<and> deref st' a = Some (new_session []))"
proof -
  let ?missing = "new_store (default_config ''s3cr3t'') []"
  let ?tampered = "new_store (default_config ''s3cr3t'')
      [(''session'', ''eyJ1aWQiOjQyfQ==|1288000000|fd353013e1e6b1060186e0aa29d00e53e622ded6'')]"
  let ?expired = "new_store ((default_config ''s3cr3t'')\<lparr>session_max_age := Some 10\<rparr>)
      [(''session'', scenario_token)]"
  have k: "or_default None (cookie_name (config ?missing)) = ''session''"
    "or_default None (cookie_name (config ?tampered)) = ''session''"
    "or_default None (cookie_name (config ?expired)) = ''session''"
    by code_simp+
  have b: "map_of (backends ?missing) ''securecookie'' = Some SecureCookieSession"
    "map_of (backends ?tampered) ''securecookie'' = Some SecureCookieSession"
    "map_of (backends ?expired) ''securecookie'' = Some SecureCookieSession"
    by code_simp+
  have t: "\<not> is_tracked ?missing ''securecookie'' ''session''"
    "\<not> is_tracked ?tampered ''securecookie'' ''session''"
    "\<not> is_tracked ?expired ''securecookie'' ''session''"
    by code_simp+
  have c1: "get_secure_cookie reflib 1288000000 ?missing ''session'' None = Inr JNull"
    by code_simp
  have c2: "get_secure_cookie reflib 1288000000 ?tampered ''session'' None = Inr JNull"
    by code_simp
  have c3: "get_secure_cookie reflib 1288000011 ?expired ''session'' None = Inr JNull"
    by code_simp
  have h: "length (heap ?missing) = 0" "length (heap ?tampered) = 0" "length (heap ?expired) = 0"
    by (simp_all add: new_store_def)
  have v: "tracked_valid ?missing"
    by code_simp
  obtain st1 where 1: "mixin_get_secure_cookie reflib 1288000000 ?missing None [] = Inr (0, st1)"
    "deref st1 0 = Some (new_session [])"
    using mixin_get_secure_cookie_returns_session [where L = reflib and now = 1288000000 and st = ?missing
        and key = None and kw = "[]"]
      b(1) t(1) c1 unfolding k h by blast
  have v1: "tracked_valid st1"
    using mixin_get_secure_cookie_returns_session [where L = reflib and now = 1288000000 and st = ?missing
        and key = None and kw = "[]" and a = 0 and st' = st1]
      v 1(1) by blast
  obtain st2 where 2: "mixin_get_secure_cookie reflib 1288000000 ?tampered None [] = Inr (0, st2)"
    "deref st2 0 = Some (new_session [])"
    using mixin_get_secure_cookie_returns_session [where L = reflib and now = 1288000000 and st = ?tampered
        and key = None and kw = "[]"]
      b(2) t(2) c2 unfolding k h by blast
  obtain st3 where 3: "mixin_get_secure_cookie reflib 1288000011 ?expired None [] = Inr (0, st3)"
    "deref st3 0 = Some (new_session [])"
    using mixin_get_secure_cookie_returns_session [where L = reflib and now = 1288000011 and st = ?expired
        and key = None and kw = "[]"]
      b(3) t(3) c3 unfolding k h by blast
  from 1 v1 2 3 c1 c2 c3 show ?thesis
    by simp
qed

end
